theory Spec2Isabelle
  imports Main "HOL-Library.Sublist"
begin

section \<open>JavaScript strings and values\<close>

text \<open>
  A JavaScript string is modelled as a \<^typ>\<open>string\<close>: a list of 8-bit characters, read as
  the code units below 256. The string methods that \<^verbatim>\<open>src/src/App.tsx\<close> calls are
  written out here with the results ECMAScript gives them.
\<close>

text \<open>\<^verbatim>\<open>s.indexOf(pat)\<close>: the least position at which \<open>pat\<close> starts in \<open>s\<close>, or \<open>-1\<close>.\<close>

fun indexOf :: "string \<Rightarrow> string \<Rightarrow> int" where
  "indexOf [] pat = (if pat = [] then 0 else - 1)"
| "indexOf (c # cs) pat =
     (if prefix pat (c # cs) then 0
      else (let k = indexOf cs pat in if k = - 1 then - 1 else k + 1))"

text \<open>\<^verbatim>\<open>s.split(sep)\<close> for a one-character separator; the result is never empty.\<close>

fun split :: "char \<Rightarrow> string \<Rightarrow> string list" where
  "split sep [] = [[]]"
| "split sep (c # cs) =
     (if c = sep then [] # split sep cs
      else (case split sep cs of w # ws \<Rightarrow> (c # w) # ws | [] \<Rightarrow> [[c]]))"

text \<open>
  \<^verbatim>\<open>s.toLowerCase()\<close> on code units below 256: the letters A to Z and the Latin-1
  capitals (0xC0 to 0xDE without the multiplication sign 0xD7) move up by 32.
\<close>

definition toLowerCase_char :: "char \<Rightarrow> char" where
  "toLowerCase_char c =
     (let n = (of_char c :: nat)
      in if (65 \<le> n \<and> n \<le> 90) \<or> (192 \<le> n \<and> n \<le> 222 \<and> n \<noteq> 215)
         then char_of (n + 32) else c)"

definition toLowerCase :: "string \<Rightarrow> string" where
  "toLowerCase s = map toLowerCase_char s"

text \<open>\<^verbatim>\<open>s.replace(c, r)\<close> with a string pattern of one character: the first occurrence only.\<close>

fun replace_first :: "char \<Rightarrow> string \<Rightarrow> string \<Rightarrow> string" where
  "replace_first c r [] = []"
| "replace_first c r (x # xs) = (if x = c then r @ xs else x # replace_first c r xs)"

text \<open>\<^verbatim>\<open>s.replace(/c/g, r)\<close>: every occurrence.\<close>

definition replace_all :: "char \<Rightarrow> string \<Rightarrow> string \<Rightarrow> string" where
  "replace_all c r s = concat (map (\<lambda>x. if x = c then r else [x]) s)"

text \<open>\<^verbatim>\<open>s.substring(0, n)\<close>.\<close>

definition substring0 :: "nat \<Rightarrow> string \<Rightarrow> string" where
  "substring0 n s = take n s"

text \<open>The decimal text of a non-negative integer, as a template literal prints it.\<close>

fun show_nat :: "nat \<Rightarrow> string" where
  "show_nat n =
     (if n < 10 then [''0123456789'' ! n]
      else show_nat (n div 10) @ [''0123456789'' ! (n mod 10)])"

declare show_nat.simps [simp del]

text \<open>
  The values \<^verbatim>\<open>res.json()\<close> can produce. A number is carried as the text that
  \<^verbatim>\<open>String(n)\<close> gives for it (\<open>''0''\<close> for both zeros): the code observes nothing else of
  a number than that text and whether it is zero or NaN. An object is the list of its own
  properties, each key once.
\<close>

datatype jsval =
    JNull
  | JBool bool
  | JNum string
  | JStr string
  | JArr "jsval list"
  | JObj "(string \<times> jsval) list"

text \<open>An error object, as far as the catch block reads it.\<close>

record js_error =
  err_name :: string
  err_message :: string

text \<open>\<^verbatim>\<open>new Error(m)\<close>.\<close>

definition new_Error :: "string \<Rightarrow> js_error" where
  "new_Error m = \<lparr>err_name = ''Error'', err_message = m\<rparr>"

text \<open>Truthiness of a value.\<close>

fun truthy :: "jsval \<Rightarrow> bool" where
  "truthy JNull = False"
| "truthy (JBool b) = b"
| "truthy (JNum n) = (n \<noteq> ''0'' \<and> n \<noteq> ''NaN'')"
| "truthy (JStr s) = (s \<noteq> [])"
| "truthy (JArr xs) = True"
| "truthy (JObj kvs) = True"

text \<open>\<^verbatim>\<open>typeof v === 'object'\<close> (true of \<^verbatim>\<open>null\<close>) and \<^verbatim>\<open>typeof v === 'string'\<close>.\<close>

fun typeof_object :: "jsval \<Rightarrow> bool" where
  "typeof_object JNull = True"
| "typeof_object (JArr xs) = True"
| "typeof_object (JObj kvs) = True"
| "typeof_object v = False"

fun typeof_string :: "jsval \<Rightarrow> bool" where
  "typeof_string (JStr s) = True"
| "typeof_string v = False"

text \<open>
  \<^verbatim>\<open>v?.k\<close> for a property name \<open>k\<close> that arrays and the built-in prototypes do not define
  (the code reads \<^verbatim>\<open>error\<close> and \<^verbatim>\<open>message\<close>); \<open>None\<close> is \<^verbatim>\<open>undefined\<close>.
\<close>

fun get_field :: "jsval \<Rightarrow> string \<Rightarrow> jsval option" where
  "get_field (JObj kvs) k = map_of kvs k"
| "get_field v k = None"

text \<open>\<^verbatim>\<open>a || b\<close> where \<open>a\<close> may be \<^verbatim>\<open>undefined\<close> or \<^verbatim>\<open>false\<close> (both \<open>None\<close>).\<close>

definition js_or :: "jsval option \<Rightarrow> jsval \<Rightarrow> jsval" where
  "js_or a b = (case a of None \<Rightarrow> b | Some v \<Rightarrow> if truthy v then v else b)"

fun collect :: "('e + 'a) list \<Rightarrow> 'e + 'a list" where
  "collect [] = Inr []"
| "collect (Inl e # rs) = Inl e"
| "collect (Inr x # rs) = (case collect rs of Inl e \<Rightarrow> Inl e | Inr xs \<Rightarrow> Inr (x # xs))"

fun join :: "string \<Rightarrow> string list \<Rightarrow> string" where
  "join sep [] = []"
| "join sep [s] = s"
| "join sep (s # t # ts) = s @ sep @ join sep (t # ts)"

text \<open>
  The conversion \<^verbatim>\<open>new Error(v)\<close> applies to its argument. An array joins its elements with
  commas, \<^verbatim>\<open>null\<close> elements printing as nothing. An object prints as
  \<^verbatim>\<open>[object Object]\<close>, unless it has a key \<^verbatim>\<open>toString\<close> of its own: that key holds
  data, not a function, and the conversion throws a TypeError (the message is the one V8 gives).
\<close>

fun ToString :: "jsval \<Rightarrow> js_error + string" where
  "ToString JNull = Inr ''null''"
| "ToString (JBool b) = Inr (if b then ''true'' else ''false'')"
| "ToString (JNum n) = Inr n"
| "ToString (JStr s) = Inr s"
| "ToString (JArr xs) =
     (case collect (map (\<lambda>x. if x = JNull then Inr [] else ToString x) xs) of
        Inl e \<Rightarrow> Inl e
      | Inr strs \<Rightarrow> Inr (join '','' strs))"
| "ToString (JObj kvs) =
     (if map_of kvs ''toString'' \<noteq> None
      then Inl \<lparr>err_name = ''TypeError'',
                err_message = ''Cannot convert object to primitive value''\<rparr>
      else Inr ''[object Object]'')"

section \<open>API client\<close>

text \<open>
  \<^verbatim>\<open>apiCall\<close> (App.tsx, lines 169 to 211). The platform's \<^verbatim>\<open>fetch\<close> is a parameter: a
  function from the request to either the error it rejects with or the response. A response
  carries what the code reads of it: the status, the status text, the value of
  \<^verbatim>\<open>headers.get("content-type")\<close> (\<open>None\<close> for \<^verbatim>\<open>null\<close>), and the outcomes of
  \<^verbatim>\<open>res.json()\<close> and \<^verbatim>\<open>res.text()\<close>, each of which may reject. The console output of
  the catch block is not part of the model.
\<close>

record response =
  res_status :: nat
  res_statusText :: string
  res_content_type :: "string option"
  res_json :: "js_error + jsval"
  res_text :: "js_error + string"

text \<open>\<^verbatim>\<open>res.ok\<close>: the status is in the range 200 to 299.\<close>

definition res_ok :: "response \<Rightarrow> bool" where
  "res_ok res = (200 \<le> res_status res \<and> res_status res \<le> 299)"

record options =
  opt_method :: "string option"
  opt_headers :: "string \<rightharpoonup> string"
  opt_body :: "string option"
  suppressLog :: bool

record request =
  req_url :: string
  req_method :: "string option"
  req_headers :: "string \<rightharpoonup> string"
  req_body :: "string option"
  req_mode :: string

definition BASE_URL :: string where
  "BASE_URL = ''https://thetechdrops.duckdns.org''"

definition build_request :: "string \<Rightarrow> options \<Rightarrow> request" where
  "build_request endpoint opts =
     \<lparr>req_url = BASE_URL @ endpoint,
      req_method = opt_method opts,
      req_headers = [''Content-Type'' \<mapsto> ''application/json'',
                     ''Accept'' \<mapsto> ''application/json''] ++ opt_headers opts,
      req_body = opt_body opts,
      req_mode = ''cors''\<rparr>"

text \<open>Lines 185 to 191: which of the two body readers runs.\<close>

definition is_json_content_type :: "string option \<Rightarrow> bool" where
  "is_json_content_type contentType =
     (case contentType of
        None \<Rightarrow> False
      | Some ct \<Rightarrow> ct \<noteq> [] \<and> indexOf ct ''application/json'' \<noteq> - 1)"

definition read_body :: "response \<Rightarrow> js_error + jsval" where
  "read_body res =
     (if is_json_content_type (res_content_type res) then res_json res
      else (case res_text res of Inl e \<Rightarrow> Inl e | Inr t \<Rightarrow> Inr (JStr t)))"

text \<open>Lines 194 to 198: the value handed to \<^verbatim>\<open>new Error\<close>.\<close>

definition errorMessage :: "response \<Rightarrow> jsval \<Rightarrow> jsval" where
  "errorMessage res data =
     js_or (if typeof_object data then get_field data ''error'' else None)
       (js_or (if typeof_object data then get_field data ''message'' else None)
          (js_or (if typeof_string data then Some data else None)
             (JStr (''Server Error: '' @ show_nat (res_status res) @ '' '' @ res_statusText res))))"

text \<open>The body of the \<^verbatim>\<open>try\<close> block: \<open>Inl\<close> is the error thrown inside it.\<close>

definition apiCall_try :: "(request \<Rightarrow> js_error + response) \<Rightarrow> string \<Rightarrow> options \<Rightarrow> js_error + jsval" where
  "apiCall_try fetch endpoint opts =
     (case fetch (build_request endpoint opts) of
        Inl e \<Rightarrow> Inl e
      | Inr res \<Rightarrow>
          (case read_body res of
             Inl e \<Rightarrow> Inl e
           | Inr data \<Rightarrow>
               if \<not> res_ok res then
                 (case ToString (errorMessage res data) of
                    Inl e \<Rightarrow> Inl e
                  | Inr m \<Rightarrow> Inl (new_Error m))
               else Inr data))"

definition NETWORK_ERROR :: string where
  "NETWORK_ERROR = ''Network Error: Could not connect to server. Check your internet connection or possible CORS issues.''"

text \<open>The \<^verbatim>\<open>catch\<close> block, lines 204 to 210: what is thrown to the caller for a caught error.\<close>

definition apiCall_catch :: "js_error \<Rightarrow> js_error" where
  "apiCall_catch err =
     (if err_message err = ''Failed to fetch'' \<or> err_name err = ''TypeError''
      then new_Error NETWORK_ERROR else err)"

definition apiCall :: "(request \<Rightarrow> js_error + response) \<Rightarrow> string \<Rightarrow> options \<Rightarrow> js_error + jsval" where
  "apiCall fetch endpoint opts =
     (case apiCall_try fetch endpoint opts of
        Inl err \<Rightarrow> Inl (apiCall_catch err)
      | Inr data \<Rightarrow> Inr data)"

text \<open>
  Two simple networks to run \<^verbatim>\<open>apiCall\<close> on: one answers every request with the same
  response, the other one rejects every request with the same error.
\<close>

definition respond :: "response \<Rightarrow> request \<Rightarrow> js_error + response" where
  "respond res req = Inr res"

definition reject :: "js_error \<Rightarrow> request \<Rightarrow> js_error + response" where
  "reject e req = Inl e"

definition GET :: options where
  "GET = \<lparr>opt_method = None, opt_headers = Map.empty, opt_body = None, suppressLog = False\<rparr>"

text \<open>A property that is absent, or present with a falsy value.\<close>

definition falsy :: "jsval option \<Rightarrow> bool" where
  "falsy a = (case a of None \<Rightarrow> True | Some v \<Rightarrow> \<not> truthy v)"

section \<open>Local persisted collections and the Schedule panel\<close>

text \<open>
  The \<^verbatim>\<open>Template\<close>, \<^verbatim>\<open>Sender\<close> and \<^verbatim>\<open>Receiver\<close> interfaces (lines 48 to 65). An absent
  \<^verbatim>\<open>password\<close> is \<open>None\<close>.
\<close>

record template =
  tpl_id :: string
  tpl_name :: string
  tpl_subject :: string
  tpl_body :: string

record sender =
  email :: string
  password :: "string option"

record receiver =
  receiverMail :: string
  receiverDomain :: string
  receiverName :: string
  scheduledDateTime :: string

text \<open>The \<^verbatim>\<open>currentTemplate\<close> state: the template being edited.\<close>

record template_draft =
  draft_subject :: string
  draft_body :: string
  draft_name :: string

text \<open>
  \<^verbatim>\<open>localStorage\<close> maps keys to strings; \<^verbatim>\<open>setItem\<close> is taken to succeed.
  \<^verbatim>\<open>JSON.stringify\<close> and \<^verbatim>\<open>JSON.parse\<close> belong to the platform and are parameters, at
  the two types the panels store. \<^verbatim>\<open>JSON.parse\<close> may throw.
\<close>

type_synonym storage = "string \<rightharpoonup> string"

record json =
  stringify_templates :: "template list \<Rightarrow> string"
  parse_templates :: "string \<Rightarrow> js_error + template list"
  stringify_senders :: "sender list \<Rightarrow> string"
  parse_senders :: "string \<Rightarrow> js_error + sender list"

text \<open>
  A selected file stands for what \<^verbatim>\<open>FileReader.readAsDataURL\<close> makes of it: the reader
  fails, or it loads a data URL.
\<close>

datatype selected_file = Unreadable | Readable string

text \<open>\<^verbatim>\<open>xs[i]\<close>: \<^verbatim>\<open>undefined\<close> out of range.\<close>

definition nth_opt :: "'a list \<Rightarrow> nat \<Rightarrow> 'a option" where
  "nth_opt xs i = (if i < length xs then Some (xs ! i) else None)"

text \<open>
  \<^verbatim>\<open>fileToBase64\<close> (lines 214 to 221): rejects with the reader's error event, which has
  no message, or resolves with \<^verbatim>\<open>result.split(',')[1]\<close>.
\<close>

definition fileToBase64 :: "selected_file \<Rightarrow> unit + string option" where
  "fileToBase64 f =
     (case f of
        Unreadable \<Rightarrow> Inl ()
      | Readable url \<Rightarrow> Inr (nth_opt (split CHR '','' url) 1))"

text \<open>\<^verbatim>\<open>xs.findIndex(p)\<close>: the first index whose element satisfies \<open>p\<close>, or \<open>-1\<close>.\<close>

fun findIndex :: "('a \<Rightarrow> bool) \<Rightarrow> 'a list \<Rightarrow> int" where
  "findIndex p [] = - 1"
| "findIndex p (x # xs) =
     (if p x then 0 else (let k = findIndex p xs in if k = - 1 then - 1 else k + 1))"

datatype schedule_mode = Manual | Csv

datatype msg_type = Success | Failure

text \<open>
  Sender objects have identity. The rows of the panel (\<^verbatim>\<open>senders\<close>) and the saved
  senders (\<^verbatim>\<open>savedSenders\<close>) are arrays of references, the row editor writes into the
  object a row refers to (lines 1491 and 1493), and \<^verbatim>\<open>saveSenderProfile\<close> puts the
  reference it is given into the saved array (lines 1372 and 1373). A reference is an address
  of the store \<open>objects\<close>; \<open>next_ref\<close> is the first address not given out yet, and
  the cells not given out hold an empty row.
\<close>

type_synonym ref = nat

text \<open>
  The state of the \<^verbatim>\<open>ScheduleEmails\<close> component (lines 1319 to 1333), with the store of
  sender objects and the two pieces of the browser its handlers write to:
  \<^verbatim>\<open>localStorage\<close> and the texts shown by \<^verbatim>\<open>alert\<close>. The text of a message is
  \<open>None\<close> when \<^verbatim>\<open>err.message\<close> is \<^verbatim>\<open>undefined\<close>.
\<close>

record schedule_emails =
  senders :: "ref list"
  savedSenders :: "ref list"
  objects :: "ref \<Rightarrow> sender"
  next_ref :: ref
  mode :: schedule_mode
  receivers :: "receiver list"
  csvFile :: "selected_file option"
  templates :: "template list"
  selectedTemplateId :: string
  currentTemplate :: template_draft
  isTemplateModalOpen :: bool
  loading :: bool
  responseMsg :: "(msg_type \<times> string option) option"
  localStorage :: storage
  alerts :: "string list"

text \<open>The state a freshly mounted component starts from, over the browser's storage.\<close>

definition ScheduleEmails_init :: "storage \<Rightarrow> schedule_emails" where
  "ScheduleEmails_init store =
     \<lparr>senders = [0],
      savedSenders = [],
      objects = (\<lambda>r. \<lparr>email = [], password = Some []\<rparr>),
      next_ref = 1,
      mode = Manual,
      receivers = [\<lparr>receiverMail = [], receiverDomain = [], receiverName = [],
                    scheduledDateTime = []\<rparr>],
      csvFile = None,
      templates = [],
      selectedTemplateId = [],
      currentTemplate = \<lparr>draft_subject = [], draft_body = [], draft_name = []\<rparr>,
      isTemplateModalOpen = False,
      loading = False,
      responseMsg = None,
      localStorage = store,
      alerts = []\<rparr>"

text \<open>A browser that has stored nothing yet.\<close>

definition empty_storage :: storage where
  "empty_storage = Map.empty"

text \<open>New objects for a list of senders, at the addresses from \<open>n\<close> on.\<close>

definition new_objects :: "ref \<Rightarrow> sender list \<Rightarrow> (ref \<Rightarrow> sender) \<Rightarrow> (ref \<Rightarrow> sender)" where
  "new_objects n ss h = (\<lambda>r. if n \<le> r \<and> r < n + length ss then ss ! (r - n) else h r)"

text \<open>
  The mount effect (lines 1335 to 1340). \<^verbatim>\<open>getItem\<close> gives \<^verbatim>\<open>null\<close> for a missing key;
  \<^verbatim>\<open>null\<close> and the empty string are falsy. An exception of \<^verbatim>\<open>JSON.parse\<close> leaves the
  effect. The senders that \<^verbatim>\<open>JSON.parse\<close> returns are new objects.
\<close>

definition ScheduleEmails_mount :: "json \<Rightarrow> schedule_emails \<Rightarrow> js_error + schedule_emails" where
  "ScheduleEmails_mount J st =
     (case (case localStorage st ''emailTemplates'' of
              None \<Rightarrow> Inr st
            | Some savedTemplates \<Rightarrow>
                if savedTemplates = [] then Inr st
                else (case parse_templates J savedTemplates of
                        Inl e \<Rightarrow> Inl e
                      | Inr ts \<Rightarrow> Inr (st\<lparr>templates := ts\<rparr>))) of
        Inl e \<Rightarrow> Inl e
      | Inr st1 \<Rightarrow>
          (case localStorage st1 ''savedSenders'' of
             None \<Rightarrow> Inr st1
           | Some savedSenderProfiles \<Rightarrow>
               if savedSenderProfiles = [] then Inr st1
               else (case parse_senders J savedSenderProfiles of
                       Inl e \<Rightarrow> Inl e
                     | Inr ss \<Rightarrow>
                         Inr (st1\<lparr>savedSenders := [next_ref st1 ..< next_ref st1 + length ss],
                                  objects := new_objects (next_ref st1) ss (objects st1),
                                  next_ref := next_ref st1 + length ss\<rparr>))))"

text \<open>
  \<^verbatim>\<open>saveTemplate\<close> (lines 1342 to 1350). \<open>now\<close> is the value of \<^verbatim>\<open>Date.now()\<close>, the
  milliseconds of the system clock.
\<close>

definition saveTemplate :: "json \<Rightarrow> nat \<Rightarrow> schedule_emails \<Rightarrow> schedule_emails" where
  "saveTemplate J now st =
     (if draft_name (currentTemplate st) = [] then
        st\<lparr>alerts := alerts st @ [''Please name your template'']\<rparr>
      else
        (let newTemplate = \<lparr>tpl_id = show_nat now,
                            tpl_name = draft_name (currentTemplate st),
                            tpl_subject = draft_subject (currentTemplate st),
                            tpl_body = draft_body (currentTemplate st)\<rparr>;
             updated = templates st @ [newTemplate]
         in st\<lparr>templates := updated,
                localStorage := (localStorage st)(''emailTemplates'' \<mapsto> stringify_templates J updated),
                selectedTemplateId := tpl_id newTemplate,
                isTemplateModalOpen := False\<rparr>))"

text \<open>\<^verbatim>\<open>deleteTemplate\<close> (lines 1352 to 1360).\<close>

definition deleteTemplate :: "json \<Rightarrow> string \<Rightarrow> schedule_emails \<Rightarrow> schedule_emails" where
  "deleteTemplate J i st =
     (let updated = filter (\<lambda>t. tpl_id t \<noteq> i) (templates st);
          st1 = st\<lparr>templates := updated,
                   localStorage := (localStorage st)(''emailTemplates'' \<mapsto> stringify_templates J updated)\<rparr>
      in if selectedTemplateId st = i
         then st1\<lparr>selectedTemplateId := [],
                  currentTemplate := \<lparr>draft_subject = [], draft_body = [], draft_name = []\<rparr>\<rparr>
         else st1)"

text \<open>
  \<^verbatim>\<open>saveSenderProfile\<close> (lines 1368 to 1376). The argument is a reference; the array
  written to storage is printed from the objects as they are at that moment.
\<close>

definition saveSenderProfile :: "json \<Rightarrow> ref \<Rightarrow> schedule_emails \<Rightarrow> schedule_emails" where
  "saveSenderProfile J sender st =
     (if email (objects st sender) = [] then st\<lparr>alerts := alerts st @ [''Enter email'']\<rparr>
      else
        (let existingIndex =
               findIndex (\<lambda>s. email (objects st s) = email (objects st sender)) (savedSenders st);
             updatedList = (if existingIndex \<ge> 0
                            then (savedSenders st)[nat existingIndex := sender]
                            else savedSenders st @ [sender])
         in st\<lparr>savedSenders := updatedList,
                localStorage := (localStorage st)(''savedSenders'' \<mapsto>
                  stringify_senders J (map (objects st) updatedList))\<rparr>))"

text \<open>\<^verbatim>\<open>deleteSavedSender\<close> (lines 1378 to 1382).\<close>

definition deleteSavedSender :: "json \<Rightarrow> string \<Rightarrow> schedule_emails \<Rightarrow> schedule_emails" where
  "deleteSavedSender J e st =
     (let updatedList = filter (\<lambda>s. email (objects st s) \<noteq> e) (savedSenders st)
      in st\<lparr>savedSenders := updatedList,
             localStorage := (localStorage st)(''savedSenders'' \<mapsto>
               stringify_senders J (map (objects st) updatedList))\<rparr>)"

text \<open>
  The handlers of a sender row (lines 1478 to 1499); \<open>idx\<close> is the index of a rendered
  row. The two inputs copy the array and assign to a field of the object at \<open>idx\<close>, so
  the object changes in place.
\<close>

definition setSenderEmail :: "nat \<Rightarrow> string \<Rightarrow> schedule_emails \<Rightarrow> schedule_emails" where
  "setSenderEmail idx v st =
     (if idx < length (senders st)
      then st\<lparr>objects := (objects st)
                (senders st ! idx := (objects st (senders st ! idx))\<lparr>email := v\<rparr>)\<rparr>
      else st)"

definition setSenderPassword :: "nat \<Rightarrow> string \<Rightarrow> schedule_emails \<Rightarrow> schedule_emails" where
  "setSenderPassword idx v st =
     (if idx < length (senders st)
      then st\<lparr>objects := (objects st)
                (senders st ! idx := (objects st (senders st ! idx))\<lparr>password := Some v\<rparr>)\<rparr>
      else st)"

text \<open>
  The Load Saved choice of a row (line 1489): the row becomes a copy,
  \<^verbatim>\<open>{ ...selected }\<close>, of the first saved sender with the chosen email.
\<close>

definition loadSavedSender :: "nat \<Rightarrow> string \<Rightarrow> schedule_emails \<Rightarrow> schedule_emails" where
  "loadSavedSender idx v st =
     (case List.find (\<lambda>s. email (objects st s) = v) (savedSenders st) of
        None \<Rightarrow> st
      | Some selected \<Rightarrow>
          if idx < length (senders st)
          then st\<lparr>senders := (senders st)[idx := next_ref st],
                  objects := (objects st)(next_ref st := objects st selected),
                  next_ref := Suc (next_ref st)\<rparr>
          else st)"

text \<open>The Add Sender button (line 1478): a row with a new, empty object.\<close>

definition addSender :: "schedule_emails \<Rightarrow> schedule_emails" where
  "addSender st =
     st\<lparr>senders := senders st @ [next_ref st],
        objects := (objects st)(next_ref st := \<lparr>email = [], password = Some []\<rparr>),
        next_ref := Suc (next_ref st)\<rparr>"

text \<open>The Save Profile button of a row (line 1498): \<^verbatim>\<open>saveSenderProfile(sender)\<close>.\<close>

definition saveRow :: "json \<Rightarrow> nat \<Rightarrow> schedule_emails \<Rightarrow> schedule_emails" where
  "saveRow J idx st =
     (if idx < length (senders st) then saveSenderProfile J (senders st ! idx) st else st)"

text \<open>The saved senders as values.\<close>

definition saved_senders :: "schedule_emails \<Rightarrow> sender list" where
  "saved_senders st = map (objects st) (savedSenders st)"

section \<open>Submitting a panel\<close>

text \<open>
  A handler that may call \<^verbatim>\<open>apiCall\<close> is modelled up to that call. It either finishes
  without reaching the call, in the state it leaves behind, or it reaches
  \<^verbatim>\<open>await apiCall(endpoint, {method, headers: {Authorization: `Bearer ${token}`}, body:
  JSON.stringify(payload)})\<close> with the state updates made so far. The payload is kept as the
  object handed to \<^verbatim>\<open>JSON.stringify\<close>; a field that is \<^verbatim>\<open>undefined\<close> or never
  assigned is \<open>None\<close>.
\<close>

record 'b api_request =
  endpoint :: string
  http_method :: string
  bearer :: string
  payload :: 'b

datatype ('st, 'b) outcome = Finished 'st | Invoked "'b api_request" 'st

record formatted_sender =
  senderMail :: string
  smtp_password :: string

record payload_template =
  subject :: string
  body :: string

record schedule_payload =
  payload_senders :: "formatted_sender list"
  payload_template :: payload_template
  payload_receivers :: "receiver list option"
  payload_receivers_csv_base64 :: "string option"

text \<open>\<^verbatim>\<open>s || ""\<close> on a string, and on an optional string.\<close>

definition or_empty :: "string \<Rightarrow> string" where
  "or_empty s = (if s \<noteq> [] then s else [])"

definition opt_or_empty :: "string option \<Rightarrow> string" where
  "opt_or_empty p = (case p of None \<Rightarrow> [] | Some s \<Rightarrow> or_empty s)"

text \<open>The envelope of a template body.\<close>

definition html_body :: "string \<Rightarrow> string" where
  "html_body b = ''<html><body>'' @ replace_all (CHR 0x0A) ''<br/>'' b @ ''</body></html>''"

text \<open>The timestamp sent: \<^verbatim>\<open>t.replace('T', ' ').substring(0, 16)\<close>.\<close>

definition format_timestamp :: "string \<Rightarrow> string" where
  "format_timestamp t = substring0 16 (replace_first CHR ''T'' '' '' t)"

text \<open>The \<^verbatim>\<open>catch\<close> and \<^verbatim>\<open>finally\<close> blocks of \<^verbatim>\<open>ScheduleEmails.handleSubmit\<close>.\<close>

definition schedule_failed :: "string option \<Rightarrow> schedule_emails \<Rightarrow> schedule_emails" where
  "schedule_failed m st = st\<lparr>responseMsg := Some (Failure, m), loading := False\<rparr>"

text \<open>\<^verbatim>\<open>ScheduleEmails.handleSubmit\<close> (lines 1411 to 1459), up to the call of \<^verbatim>\<open>apiCall\<close>.\<close>

definition ScheduleEmails_handleSubmit ::
    "string \<Rightarrow> schedule_emails \<Rightarrow> (schedule_emails, schedule_payload) outcome" where
  "ScheduleEmails_handleSubmit token st =
     (let st1 = st\<lparr>loading := True, responseMsg := None\<rparr>
      in if draft_subject (currentTemplate st) = [] \<or> draft_body (currentTemplate st) = []
         then Finished (schedule_failed (Some ''Template required.'') st1)
         else
           (let formattedSenders =
                  map (\<lambda>s. \<lparr>senderMail = email (objects st s),
                            smtp_password = opt_or_empty (password (objects st s))\<rparr>)
                    (senders st);
                payload0 = \<lparr>payload_senders = formattedSenders,
                            payload_template =
                              \<lparr>subject = draft_subject (currentTemplate st),
                               body = html_body (draft_body (currentTemplate st))\<rparr>,
                            payload_receivers = None,
                            payload_receivers_csv_base64 = None\<rparr>;
                call = (\<lambda>p. Invoked \<lparr>endpoint = ''/scheduleEmails'', http_method = ''POST'',
                                       bearer = token, payload = p\<rparr> st1)
            in case mode st of
                 Manual \<Rightarrow>
                   (let rs = map (\<lambda>r. \<lparr>receiverMail = receiverMail r,
                                         receiverDomain = or_empty (receiverDomain r),
                                         receiverName = or_empty (receiverName r),
                                         scheduledDateTime = format_timestamp (scheduledDateTime r)\<rparr>)
                               (filter (\<lambda>r. receiverMail r \<noteq> [] \<and> scheduledDateTime r \<noteq> [])
                                  (receivers st))
                    in if length rs = 0
                       then Finished (schedule_failed
                              (Some ''Please add at least one valid receiver with a date.'') st1)
                       else call (payload0\<lparr>payload_receivers := Some rs\<rparr>))
               | Csv \<Rightarrow>
                   (case csvFile st of
                      None \<Rightarrow> Finished (schedule_failed (Some ''Please upload a CSV file.'') st1)
                    | Some f \<Rightarrow>
                        (case fileToBase64 f of
                           Inl _ \<Rightarrow> Finished (schedule_failed None st1)
                         | Inr b \<Rightarrow> call (payload0\<lparr>payload_receivers_csv_base64 := b\<rparr>)))))"

section \<open>A printer and reader of JSON text for the examples\<close>

text \<open>
  To run the handlers on concrete inputs, the platform's \<^verbatim>\<open>JSON.stringify\<close> and
  \<^verbatim>\<open>JSON.parse\<close> need values. \<open>JSON\<close> prints a list of templates or of senders
  as \<^verbatim>\<open>JSON.stringify\<close> does for strings without control characters (a quote and a
  backslash are escaped with a backslash, an absent password is left out), and reads such
  text back. It is used in the closed examples only; the theorems hold for every value of
  the parameter.
\<close>

definition quote :: "string \<Rightarrow> string" where
  "quote s = CHR 0x22 # concat (map (\<lambda>c. if c = CHR 0x22 \<or> c = CHR 0x5C then [CHR 0x5C, c] else [c]) s) @ [CHR 0x22]"

definition template_text :: "template \<Rightarrow> string" where
  "template_text t =
     ''{'' @ quote ''id'' @ '':'' @ quote (tpl_id t) @ '','' @ quote ''name'' @ '':'' @ quote (tpl_name t)
       @ '','' @ quote ''subject'' @ '':'' @ quote (tpl_subject t)
       @ '','' @ quote ''body'' @ '':'' @ quote (tpl_body t) @ ''}''"

definition sender_text :: "sender \<Rightarrow> string" where
  "sender_text s =
     ''{'' @ quote ''email'' @ '':'' @ quote (email s)
       @ (case password s of None \<Rightarrow> [] | Some p \<Rightarrow> '','' @ quote ''password'' @ '':'' @ quote p)
       @ ''}''"

definition array_text :: "('a \<Rightarrow> string) \<Rightarrow> 'a list \<Rightarrow> string" where
  "array_text f xs = ''['' @ join '','' (map f xs) @ '']''"

fun read_chars :: "string \<Rightarrow> (string \<times> string) option" where
  "read_chars [] = None"
| "read_chars [c] = (if c = CHR 0x22 then Some ([], []) else None)"
| "read_chars (c # d # ds) =
     (if c = CHR 0x22 then Some ([], d # ds)
      else if c = CHR 0x5C then map_option (\<lambda>(s, r). (d # s, r)) (read_chars ds)
      else map_option (\<lambda>(s, r). (c # s, r)) (read_chars (d # ds)))"

definition read_quoted :: "string \<Rightarrow> (string \<times> string) option" where
  "read_quoted s = (case s of [] \<Rightarrow> None | c # cs \<Rightarrow> if c = CHR 0x22 then read_chars cs else None)"

definition expect :: "string \<Rightarrow> string \<Rightarrow> string option" where
  "expect p s = (if prefix p s then Some (drop (length p) s) else None)"

definition read_field :: "string \<Rightarrow> string \<Rightarrow> (string \<times> string) option" where
  "read_field k s = Option.bind (expect (quote k @ '':'') s) read_quoted"

definition read_template :: "string \<Rightarrow> (template \<times> string) option" where
  "read_template s =
     Option.bind (expect ''{'' s) (\<lambda>s.
     Option.bind (read_field ''id'' s) (\<lambda>(i, s).
     Option.bind (expect '','' s) (\<lambda>s.
     Option.bind (read_field ''name'' s) (\<lambda>(n, s).
     Option.bind (expect '','' s) (\<lambda>s.
     Option.bind (read_field ''subject'' s) (\<lambda>(su, s).
     Option.bind (expect '','' s) (\<lambda>s.
     Option.bind (read_field ''body'' s) (\<lambda>(b, s).
     Option.bind (expect ''}'' s) (\<lambda>s.
       Some (\<lparr>tpl_id = i, tpl_name = n, tpl_subject = su, tpl_body = b\<rparr>, s))))))))))"

definition read_sender :: "string \<Rightarrow> (sender \<times> string) option" where
  "read_sender s =
     Option.bind (expect ''{'' s) (\<lambda>s.
     Option.bind (read_field ''email'' s) (\<lambda>(e, s).
       case expect ''}'' s of
         Some r \<Rightarrow> Some (\<lparr>email = e, password = None\<rparr>, r)
       | None \<Rightarrow>
           Option.bind (expect '','' s) (\<lambda>s.
           Option.bind (read_field ''password'' s) (\<lambda>(p, s).
           Option.bind (expect ''}'' s) (\<lambda>s.
             Some (\<lparr>email = e, password = Some p\<rparr>, s))))))"

fun read_items :: "nat \<Rightarrow> (string \<Rightarrow> ('a \<times> string) option) \<Rightarrow> string \<Rightarrow> 'a list option" where
  "read_items 0 f s = None"
| "read_items (Suc n) f s =
     (case f s of
        None \<Rightarrow> None
      | Some (x, r) \<Rightarrow>
          if r = '']'' then Some [x]
          else (case expect '','' r of
                  None \<Rightarrow> None
                | Some r' \<Rightarrow> map_option (\<lambda>xs. x # xs) (read_items n f r')))"

definition read_array :: "(string \<Rightarrow> ('a \<times> string) option) \<Rightarrow> string \<Rightarrow> js_error + 'a list" where
  "read_array f s =
     (case (if s = ''[]'' then Some []
            else Option.bind (expect ''['' s) (read_items (length s) f)) of
        None \<Rightarrow> Inl \<lparr>err_name = ''SyntaxError'', err_message = ''Unexpected token''\<rparr>
      | Some xs \<Rightarrow> Inr xs)"

text \<open>The four functions together.\<close>

definition JSON :: json where
  "JSON = \<lparr>stringify_templates = array_text template_text,
           parse_templates = read_array read_template,
           stringify_senders = array_text sender_text,
           parse_senders = read_array read_sender\<rparr>"

section \<open>Auto Scheduler\<close>

datatype auto_mode = AutoManual | ReceiverCsv | FullCsv

text \<open>
  \<^verbatim>\<open>gapMinutes\<close> starts at 5 and is set to \<^verbatim>\<open>parseInt(e.target.value)\<close> (line 1773): an
  integer, or NaN, which is \<open>None\<close>. Every comparison with NaN is false.
\<close>

definition num_lt :: "int option \<Rightarrow> int \<Rightarrow> bool" where
  "num_lt x k = (case x of None \<Rightarrow> False | Some n \<Rightarrow> n < k)"

definition num_gt :: "int option \<Rightarrow> int \<Rightarrow> bool" where
  "num_gt x k = (case x of None \<Rightarrow> False | Some n \<Rightarrow> n > k)"

record credentials =
  cred_email :: string
  cred_password :: string

record auto_receiver =
  auto_receiverMail :: string
  auto_receiverDomain :: string
  auto_receiverName :: string

text \<open>The state of the \<^verbatim>\<open>AutoScheduler\<close> component that its submit handler reads and writes.\<close>

record auto_scheduler =
  auto_mode :: auto_mode
  startDateTime :: string
  gapMinutes :: "int option"
  auto_sender :: credentials
  auto_receivers :: "auto_receiver list"
  auto_csvFile :: "selected_file option"
  auto_template :: template_draft
  auto_loading :: bool
  auto_result :: "jsval option"
  auto_error :: "string option"

record auto_payload =
  auto_payload_startDateTime :: string
  auto_payload_gapMinutes :: "int option"
  auto_payload_template :: payload_template
  auto_payload_sender :: "formatted_sender option"
  auto_payload_receivers :: "auto_receiver list option"
  auto_payload_receivers_csv_base64 :: "string option"
  auto_payload_csv_base64 :: "string option"

text \<open>The \<^verbatim>\<open>catch\<close> and \<^verbatim>\<open>finally\<close> blocks of \<^verbatim>\<open>AutoScheduler.handleSubmit\<close>.\<close>

definition auto_failed :: "string option \<Rightarrow> auto_scheduler \<Rightarrow> auto_scheduler" where
  "auto_failed m st = st\<lparr>auto_error := m, auto_loading := False\<rparr>"

text \<open>\<^verbatim>\<open>AutoScheduler.handleSubmit\<close> (lines 1679 to 1717), up to the call of \<^verbatim>\<open>apiCall\<close>.\<close>

definition AutoScheduler_handleSubmit ::
    "string \<Rightarrow> auto_scheduler \<Rightarrow> (auto_scheduler, auto_payload) outcome" where
  "AutoScheduler_handleSubmit token st =
     (if startDateTime st = [] then
        Finished (st\<lparr>auto_error := Some ''Start Date & Time is required''\<rparr>)
      else if num_lt (gapMinutes st) 1 \<or> num_gt (gapMinutes st) 60 then
        Finished (st\<lparr>auto_error := Some ''Gap Minutes must be between 1 and 60''\<rparr>)
      else
        (let st1 = st\<lparr>auto_loading := True, auto_error := None, auto_result := None\<rparr>;
             payload0 = \<lparr>auto_payload_startDateTime = format_timestamp (startDateTime st),
                         auto_payload_gapMinutes = gapMinutes st,
                         auto_payload_template =
                           \<lparr>subject = draft_subject (auto_template st),
                            body = html_body (draft_body (auto_template st))\<rparr>,
                         auto_payload_sender = None,
                         auto_payload_receivers = None,
                         auto_payload_receivers_csv_base64 = None,
                         auto_payload_csv_base64 = None\<rparr>;
             sender_of = \<lparr>senderMail = cred_email (auto_sender st),
                          smtp_password = cred_password (auto_sender st)\<rparr>;
             call = (\<lambda>p. Invoked \<lparr>endpoint = ''/scheduleEmails/auto'', http_method = ''POST'',
                                    bearer = token, payload = p\<rparr> st1)
         in case auto_mode st of
              AutoManual \<Rightarrow>
                call (payload0\<lparr>auto_payload_sender := Some sender_of,
                               auto_payload_receivers :=
                                 Some (filter (\<lambda>r. auto_receiverMail r \<noteq> []) (auto_receivers st))\<rparr>)
            | ReceiverCsv \<Rightarrow>
                (case auto_csvFile st of
                   None \<Rightarrow> Finished (auto_failed (Some ''Please upload receivers CSV'') st1)
                 | Some f \<Rightarrow>
                     (case fileToBase64 f of
                        Inl _ \<Rightarrow> Finished (auto_failed None st1)
                      | Inr b \<Rightarrow> call (payload0\<lparr>auto_payload_sender := Some sender_of,
                                                  auto_payload_receivers_csv_base64 := b\<rparr>)))
            | FullCsv \<Rightarrow>
                (case auto_csvFile st of
                   None \<Rightarrow> Finished (auto_failed (Some ''Please upload full CSV'') st1)
                 | Some f \<Rightarrow>
                     (case fileToBase64 f of
                        Inl _ \<Rightarrow> Finished (auto_failed None st1)
                      | Inr b \<Rightarrow> call (payload0\<lparr>auto_payload_csv_base64 := b\<rparr>)))))"

section \<open>Domain Manager\<close>

record domain_manager =
  newEmail :: string
  dm_loading :: bool
  verificationData :: "jsval option"
  msg :: "(msg_type \<times> string) option"

record verification_payload =
  sender_email :: string

definition blockedDomains :: "string list" where
  "blockedDomains = [''gmail.com'', ''yahoo.com'', ''outlook.com'', ''hotmail.com'',
                     ''icloud.com'', ''aol.com'', ''live.com'', ''msn.com'']"

definition PUBLIC_DOMAIN_ERROR :: string where
  "PUBLIC_DOMAIN_ERROR = ''Public email domains (Gmail, Yahoo, etc.) cannot be verified. Please use a custom domain you own.''"

text \<open>
  \<^verbatim>\<open>DomainManager.handleRequestVerification\<close> (lines 1120 to 1148), up to the call of
  \<^verbatim>\<open>apiCall\<close>. \<^verbatim>\<open>emailParts[1]\<close> is read only where the array has two elements.
\<close>

definition handleRequestVerification ::
    "string \<Rightarrow> domain_manager \<Rightarrow> (domain_manager, verification_payload) outcome" where
  "handleRequestVerification token st =
     (if newEmail st = [] then Finished st
      else
        (let emailParts = split CHR ''@'' (newEmail st)
         in if length emailParts < 2 then
              Finished (st\<lparr>msg := Some (Failure, ''Invalid email format'')\<rparr>)
            else
              (let emailDomain = emailParts ! 1
               in if toLowerCase emailDomain \<in> set blockedDomains then
                    Finished (st\<lparr>msg := Some (Failure, PUBLIC_DOMAIN_ERROR)\<rparr>)
                  else
                    Invoked \<lparr>endpoint = ''/domains/request-verification'', http_method = ''POST'',
                             bearer = token, payload = \<lparr>sender_email = newEmail st\<rparr>\<rparr>
                      (st\<lparr>dm_loading := True, msg := None, verificationData := None\<rparr>))))"

section \<open>User Stats\<close>

datatype log_status = Scheduled | Sent | Failed

text \<open>The \<^verbatim>\<open>EmailLog\<close> interface (lines 116 to 126).\<close>

record email_log =
  log_id :: string
  job_id :: string
  log_senderMail :: string
  log_receiverMail :: string
  log_status :: log_status
  scheduled_at :: string
  executed_at :: "string option"
  log_error :: "string option"
  created_at :: string

datatype confirm_type = ConfirmSingle | ConfirmBulk | ConfirmAll

record confirm_modal =
  modal_show :: bool
  modal_type :: confirm_type
  modal_id :: "string option"

text \<open>
  The state of the \<^verbatim>\<open>UserStats\<close> component that the log handlers read and write, with the
  texts shown by \<^verbatim>\<open>alert\<close>.
\<close>

record user_stats =
  logs :: "email_log list"
  selectedIds :: "string list"
  isDeleting :: bool
  confirmModal :: "confirm_modal option"
  stats_alerts :: "string list"

definition UserStats_init :: user_stats where
  "UserStats_init =
     \<lparr>logs = [], selectedIds = [], isDeleting = False, confirmModal = None, stats_alerts = []\<rparr>"

text \<open>
  The handlers await \<^verbatim>\<open>apiCall\<close>; its outcome is an argument. For the log listing the
  outcome is \<open>Inl e\<close> when the \<^verbatim>\<open>try\<close> block of \<^verbatim>\<open>fetchLogs\<close> throws \<open>e\<close>, and
  otherwise \<open>Inr l\<close> with \<open>l\<close> the value of \<^verbatim>\<open>data.logs\<close>, \<open>None\<close> when it is falsy.
\<close>

text \<open>\<^verbatim>\<open>fetchLogs\<close> (lines 805 to 818).\<close>

definition fetchLogs :: "js_error + email_log list option \<Rightarrow> user_stats \<Rightarrow> user_stats" where
  "fetchLogs r st =
     (case r of
        Inl e \<Rightarrow> st
      | Inr None \<Rightarrow> st\<lparr>logs := []\<rparr>
      | Inr (Some ls) \<Rightarrow> st\<lparr>logs := ls\<rparr>)"

text \<open>The \<^verbatim>\<open>finally\<close> block shared by the three delete handlers.\<close>

definition delete_finally :: "user_stats \<Rightarrow> user_stats" where
  "delete_finally st = st\<lparr>isDeleting := False, confirmModal := None\<rparr>"

text \<open>\<^verbatim>\<open>handleDeleteSingle\<close> (lines 840 to 854); \<open>del\<close> is the outcome of the DELETE call.\<close>

definition handleDeleteSingle ::
    "js_error + jsval \<Rightarrow> js_error + email_log list option \<Rightarrow> string \<Rightarrow> user_stats \<Rightarrow> user_stats" where
  "handleDeleteSingle del r i st =
     (case del of
        Inl err \<Rightarrow> delete_finally (st\<lparr>stats_alerts := stats_alerts st @ [err_message err]\<rparr>)
      | Inr _ \<Rightarrow> delete_finally (fetchLogs r st))"

text \<open>\<^verbatim>\<open>handleDeleteBulk\<close> (lines 856 to 873).\<close>

definition handleDeleteBulk ::
    "js_error + jsval \<Rightarrow> js_error + email_log list option \<Rightarrow> user_stats \<Rightarrow> user_stats" where
  "handleDeleteBulk del r st =
     (if length (selectedIds st) = 0 then st
      else
        (case del of
           Inl err \<Rightarrow> delete_finally (st\<lparr>stats_alerts := stats_alerts st @ [err_message err]\<rparr>)
         | Inr _ \<Rightarrow> delete_finally (fetchLogs r (st\<lparr>selectedIds := []\<rparr>))))"

text \<open>\<^verbatim>\<open>handleDeleteAll\<close> (lines 875 to 889).\<close>

definition handleDeleteAll ::
    "js_error + jsval \<Rightarrow> js_error + email_log list option \<Rightarrow> user_stats \<Rightarrow> user_stats" where
  "handleDeleteAll del r st =
     (case del of
        Inl err \<Rightarrow> delete_finally (st\<lparr>stats_alerts := stats_alerts st @ [err_message err]\<rparr>)
      | Inr _ \<Rightarrow> delete_finally (fetchLogs r st))"

text \<open>\<^verbatim>\<open>toggleSelect\<close> (lines 891 to 893).\<close>

definition toggleSelect :: "string \<Rightarrow> user_stats \<Rightarrow> user_stats" where
  "toggleSelect i st =
     st\<lparr>selectedIds :=
          (if i \<in> set (selectedIds st) then filter (\<lambda>j. j \<noteq> i) (selectedIds st)
           else selectedIds st @ [i])\<rparr>"

text \<open>\<^verbatim>\<open>toggleSelectAll\<close> (lines 895 to 901).\<close>

definition toggleSelectAll :: "user_stats \<Rightarrow> user_stats" where
  "toggleSelectAll st =
     (if length (selectedIds st) = length (logs st) then st\<lparr>selectedIds := []\<rparr>
      else st\<lparr>selectedIds := map log_id (logs st)\<rparr>)"

section \<open>Starting states and observations\<close>

text \<open>Whether a handler reached the call of \<^verbatim>\<open>apiCall\<close>, and the state it produced.\<close>

definition invoked :: "('st, 'b) outcome \<Rightarrow> bool" where
  "invoked out = (case out of Finished st \<Rightarrow> False | Invoked req st \<Rightarrow> True)"

definition outcome_state :: "('st, 'b) outcome \<Rightarrow> 'st" where
  "outcome_state out = (case out of Finished st \<Rightarrow> st | Invoked req st \<Rightarrow> st)"

text \<open>The initial state of the \<^verbatim>\<open>AutoScheduler\<close> component (lines 1604 to 1618).\<close>

definition AutoScheduler_init :: auto_scheduler where
  "AutoScheduler_init =
     \<lparr>auto_mode = AutoManual, startDateTime = [], gapMinutes = Some 5,
      auto_sender = \<lparr>cred_email = [], cred_password = []\<rparr>,
      auto_receivers = [\<lparr>auto_receiverMail = [], auto_receiverDomain = [],
                         auto_receiverName = []\<rparr>],
      auto_csvFile = None,
      auto_template = \<lparr>draft_subject = [], draft_body = [], draft_name = []\<rparr>,
      auto_loading = False, auto_result = None, auto_error = None\<rparr>"

definition GAP_ERROR :: string where
  "GAP_ERROR = ''Gap Minutes must be between 1 and 60''"

text \<open>The initial state of the \<^verbatim>\<open>DomainManager\<close> component (lines 1100 to 1107).\<close>

definition DomainManager_init :: domain_manager where
  "DomainManager_init = \<lparr>newEmail = [], dm_loading = False, verificationData = None, msg = None\<rparr>"

text \<open>
  The part of an email after its first \<^verbatim>\<open>@\<close>, up to the next \<^verbatim>\<open>@\<close> if there is
  one.
\<close>

definition domain_part :: "string \<Rightarrow> string" where
  "domain_part e =
     takeWhile (\<lambda>c. c \<noteq> CHR ''@'') (tl (dropWhile (\<lambda>c. c \<noteq> CHR ''@'') e))"

text \<open>A receiver row that the manual Schedule panel sends, and the form in which it is sent.\<close>

definition complete_row :: "receiver \<Rightarrow> bool" where
  "complete_row r = (receiverMail r \<noteq> [] \<and> scheduledDateTime r \<noteq> [])"

definition sent_row :: "receiver \<Rightarrow> receiver" where
  "sent_row r = r\<lparr>scheduledDateTime := format_timestamp (scheduledDateTime r)\<rparr>"

definition NO_RECEIVER_ERROR :: string where
  "NO_RECEIVER_ERROR = ''Please add at least one valid receiver with a date.''"

text \<open>A log entry with a given id, for the examples.\<close>

definition log_entry :: "string \<Rightarrow> email_log" where
  "log_entry i =
     \<lparr>log_id = i, job_id = ''job-1'', log_senderMail = ''sender@example.com'',
      log_receiverMail = ''receiver@example.com'', log_status = Sent,
      scheduled_at = ''2025-01-01 10:00'', executed_at = Some ''2025-01-01 10:00'',
      log_error = None, created_at = ''2025-01-01 09:00''\<rparr>"

section \<open>Properties of the string functions\<close>

lemma indexOf_ge_minus_one: "- 1 \<le> indexOf s pat"
  by (induction s) (auto simp: Let_def)

lemma indexOf_sublist: "indexOf s pat \<noteq> - 1 \<longleftrightarrow> sublist pat s"
proof (induction s)
  case Nil
  then show ?case by simp
next
  case (Cons c cs)
  have "indexOf cs pat + 1 \<noteq> - 1"
    using indexOf_ge_minus_one [of cs pat] by arith
  with Cons show ?case
    by (auto simp: Let_def sublist_Cons_right)
qed

section \<open>Properties of the API client\<close>

lemma get_field_object: "get_field data k = Some x \<Longrightarrow> typeof_object data"
  by (cases data) simp_all

lemma errorMessage_error:
  "get_field data ''error'' = Some v \<Longrightarrow> truthy v \<Longrightarrow> errorMessage res data = v"
  using get_field_object [of data "''error''" v] by (simp add: errorMessage_def js_or_def)

lemma errorMessage_message:
  "falsy (get_field data ''error'') \<Longrightarrow> get_field data ''message'' = Some w \<Longrightarrow> truthy w
   \<Longrightarrow> errorMessage res data = w"
  using get_field_object [of data "''message''" w]
  by (simp add: errorMessage_def js_or_def falsy_def split: option.splits)

lemma errorMessage_text: "t \<noteq> [] \<Longrightarrow> errorMessage res (JStr t) = JStr t"
  by (simp add: errorMessage_def js_or_def)

lemma errorMessage_default:
  "falsy (get_field data ''error'') \<Longrightarrow> falsy (get_field data ''message'')
   \<Longrightarrow> (typeof_string data \<longrightarrow> \<not> truthy data)
   \<Longrightarrow> errorMessage res data =
       JStr (''Server Error: '' @ show_nat (res_status res) @ '' '' @ res_statusText res)"
  by (simp add: errorMessage_def js_or_def falsy_def split: option.splits)

lemma apiCall_catch_keeps:
  "m \<noteq> ''Failed to fetch'' \<Longrightarrow> apiCall_catch (new_Error m) = new_Error m"
  by (simp add: apiCall_catch_def new_Error_def)

lemma apiCall_not_ok:
  assumes "fetch (build_request ep opts) = Inr res" and "\<not> res_ok res"
    and "read_body res = Inr data"
  shows "apiCall fetch ep opts =
      (case ToString (errorMessage res data) of
         Inl e \<Rightarrow> Inl (apiCall_catch e)
       | Inr m \<Rightarrow> Inl (apiCall_catch (new_Error m)))"
  using assms by (simp add: apiCall_def apiCall_try_def split: sum.splits)

lemma server_error_not_ff: "''Server Error: '' @ x \<noteq> ''Failed to fetch''"
  by simp

lemma show_nat_500: "show_nat 500 = ''500''"
  by (simp add: show_nat.simps)


lemma text_plain_not_sublist: "\<not> sublist ''application/json'' ''text/plain''"
  by code_simp

lemma application_json_sublist: "sublist ''application/json'' ''application/json''"
  by simp

lemma is_json_content_type_iff:
  "is_json_content_type c \<longleftrightarrow> (\<exists>ct. c = Some ct \<and> sublist ''application/json'' ct)"
  by (cases c) (auto simp: is_json_content_type_def indexOf_sublist)

text \<open>
  Claim C1, as amended. A response outside 200 to 299 whose body was read makes \<^verbatim>\<open>apiCall\<close>
  throw an error whose message is chosen in this order: the \<^verbatim>\<open>error\<close> property of the
  body when it is truthy, else the \<^verbatim>\<open>message\<close> property when it is truthy, else the body
  itself when it is a non-empty string, else \<^verbatim>\<open>Server Error: <status> <statusText>\<close>. The
  chosen value is converted to a string, and in the first three cases the message thrown is
  that string provided that the conversion does not throw (for a string it never does) and
  that the string differs from \<^verbatim>\<open>Failed to fetch\<close>.
\<close>

theorem apiCall_error_message_priority:
  assumes "fetch (build_request ep opts) = Inr res" and "\<not> res_ok res"
    and "read_body res = Inr data"
  shows "(get_field data ''error'' = Some v \<and> truthy v \<and> ToString v = Inr s
            \<and> s \<noteq> ''Failed to fetch''
          \<longrightarrow> apiCall fetch ep opts = Inl (new_Error s))
       \<and> (falsy (get_field data ''error'') \<and> get_field data ''message'' = Some w \<and> truthy w
            \<and> ToString w = Inr m \<and> m \<noteq> ''Failed to fetch''
          \<longrightarrow> apiCall fetch ep opts = Inl (new_Error m))
       \<and> (data = JStr t \<and> t \<noteq> [] \<and> t \<noteq> ''Failed to fetch''
          \<longrightarrow> apiCall fetch ep opts = Inl (new_Error t))
       \<and> (falsy (get_field data ''error'') \<and> falsy (get_field data ''message'')
            \<and> (typeof_string data \<longrightarrow> \<not> truthy data)
          \<longrightarrow> apiCall fetch ep opts =
                Inl (new_Error (''Server Error: '' @ show_nat (res_status res) @ '' '' @ res_statusText res)))"
proof -
  note call = apiCall_not_ok [of fetch ep opts res data, OF assms]
  have c1: "get_field data ''error'' = Some v \<and> truthy v \<and> ToString v = Inr s
            \<and> s \<noteq> ''Failed to fetch''
          \<longrightarrow> apiCall fetch ep opts = Inl (new_Error s)"
    by (simp add: call errorMessage_error apiCall_catch_keeps)
  have c2: "falsy (get_field data ''error'') \<and> get_field data ''message'' = Some w \<and> truthy w
            \<and> ToString w = Inr m \<and> m \<noteq> ''Failed to fetch''
          \<longrightarrow> apiCall fetch ep opts = Inl (new_Error m)"
    by (simp add: call errorMessage_message apiCall_catch_keeps)
  have c3: "data = JStr t \<and> t \<noteq> [] \<and> t \<noteq> ''Failed to fetch''
          \<longrightarrow> apiCall fetch ep opts = Inl (new_Error t)"
    by (simp add: call errorMessage_text apiCall_catch_keeps)
  have c4: "falsy (get_field data ''error'') \<and> falsy (get_field data ''message'')
            \<and> (typeof_string data \<longrightarrow> \<not> truthy data)
          \<longrightarrow> apiCall fetch ep opts =
                Inl (new_Error (''Server Error: '' @ show_nat (res_status res) @ '' '' @ res_statusText res))"
    using server_error_not_ff [of "show_nat (res_status res) @ '' '' @ res_statusText res"]
    by (simp add: call errorMessage_default apiCall_catch_keeps del: append.simps)
  from c1 c2 c3 c4 show ?thesis by blast
qed

theorem apiCall_error_message_priority_witness:
  "apiCall (respond \<lparr>res_status = 400, res_statusText = ''Bad Request'',
                     res_content_type = Some ''application/json'',
                     res_json = Inr (JObj [(''error'', JStr ''Invalid credentials''),
                                           (''message'', JStr ''Login failed'')]),
                     res_text = Inr []\<rparr>) ''/login'' GET
     = Inl (new_Error ''Invalid credentials'')
 \<and> apiCall (respond \<lparr>res_status = 403, res_statusText = ''Forbidden'',
                     res_content_type = Some ''application/json'',
                     res_json = Inr (JObj [(''message'', JStr ''Account pending'')]),
                     res_text = Inr []\<rparr>) ''/login'' GET
     = Inl (new_Error ''Account pending'')
 \<and> apiCall (respond \<lparr>res_status = 502, res_statusText = ''Bad Gateway'',
                     res_content_type = Some ''text/html'',
                     res_json = Inl \<lparr>err_name = ''SyntaxError'', err_message = ''Unexpected token''\<rparr>,
                     res_text = Inr ''upstream timed out''\<rparr>) ''/login'' GET
     = Inl (new_Error ''upstream timed out'')
 \<and> apiCall (respond \<lparr>res_status = 500, res_statusText = ''Internal Server Error'',
                     res_content_type = None,
                     res_json = Inl \<lparr>err_name = ''SyntaxError'', err_message = ''Unexpected end''\<rparr>,
                     res_text = Inr []\<rparr>) ''/login'' GET
     = Inl (new_Error ''Server Error: 500 Internal Server Error'')"
proof -
  let ?r1 = "\<lparr>res_status = 400, res_statusText = ''Bad Request'',
                     res_content_type = Some ''application/json'',
                     res_json = Inr (JObj [(''error'', JStr ''Invalid credentials''),
                                           (''message'', JStr ''Login failed'')]),
                     res_text = Inr []\<rparr>"
  let ?r2 = "\<lparr>res_status = 403, res_statusText = ''Forbidden'',
                     res_content_type = Some ''application/json'',
                     res_json = Inr (JObj [(''message'', JStr ''Account pending'')]),
                     res_text = Inr []\<rparr>"
  let ?r3 = "\<lparr>res_status = 502, res_statusText = ''Bad Gateway'',
                     res_content_type = Some ''text/html'',
                     res_json = Inl \<lparr>err_name = ''SyntaxError'', err_message = ''Unexpected token''\<rparr>,
                     res_text = Inr ''upstream timed out''\<rparr>"
  let ?r4 = "\<lparr>res_status = 500, res_statusText = ''Internal Server Error'',
                     res_content_type = None,
                     res_json = Inl \<lparr>err_name = ''SyntaxError'', err_message = ''Unexpected end''\<rparr>,
                     res_text = Inr []\<rparr>"
  have a: "apiCall (respond ?r1) ''/login'' GET = Inl (new_Error ''Invalid credentials'')"
    using apiCall_error_message_priority [of "respond ?r1" "''/login''" GET ?r1
        "JObj [(''error'', JStr ''Invalid credentials''), (''message'', JStr ''Login failed'')]"
        "JStr ''Invalid credentials''" "''Invalid credentials''"]
    by (simp add: respond_def res_ok_def read_body_def is_json_content_type_def)
  have b: "apiCall (respond ?r2) ''/login'' GET = Inl (new_Error ''Account pending'')"
    using apiCall_error_message_priority [of "respond ?r2" "''/login''" GET ?r2
        "JObj [(''message'', JStr ''Account pending'')]" _ _
        "JStr ''Account pending''" "''Account pending''"]
    by (simp add: respond_def res_ok_def read_body_def is_json_content_type_def falsy_def)
  have c: "apiCall (respond ?r3) ''/login'' GET = Inl (new_Error ''upstream timed out'')"
    using apiCall_error_message_priority [of "respond ?r3" "''/login''" GET ?r3
        "JStr ''upstream timed out''" _ _ _ _ "''upstream timed out''"]
    by (simp add: respond_def res_ok_def read_body_def is_json_content_type_def)
  have d: "apiCall (respond ?r4) ''/login'' GET = Inl (new_Error ''Server Error: 500 Internal Server Error'')"
    using apiCall_error_message_priority [of "respond ?r4" "''/login''" GET ?r4 "JStr []"]
    by (simp add: respond_def res_ok_def read_body_def is_json_content_type_def falsy_def show_nat_500)
  from a b c d show ?thesis by blast
qed

text \<open>
  Claim C1 as stated fails. A status 400 body \<^verbatim>\<open>{"error": "", "message": "Invalid"}\<close> has an
  \<^verbatim>\<open>error\<close> field, and the message thrown is \<^verbatim>\<open>Invalid\<close>, not the field's value. A
  body \<^verbatim>\<open>{"error": "Failed to fetch"}\<close> is reported with the network error text, and so
  is a body \<^verbatim>\<open>{"error": {"toString": 1}, "message": "Bad input"}\<close>, whose \<^verbatim>\<open>error\<close>
  value cannot be converted to a string.
\<close>

theorem apiCall_error_field_counterexample:
  "apiCall (respond \<lparr>res_status = 400, res_statusText = ''Bad Request'',
                     res_content_type = Some ''application/json'',
                     res_json = Inr (JObj [(''error'', JStr []), (''message'', JStr ''Invalid'')]),
                     res_text = Inr []\<rparr>) ''/login'' GET
     = Inl (new_Error ''Invalid'')
 \<and> apiCall (respond \<lparr>res_status = 400, res_statusText = ''Bad Request'',
                     res_content_type = Some ''application/json'',
                     res_json = Inr (JObj [(''error'', JStr []), (''message'', JStr ''Invalid'')]),
                     res_text = Inr []\<rparr>) ''/login'' GET
     \<noteq> Inl (new_Error [])
 \<and> apiCall (respond \<lparr>res_status = 500, res_statusText = ''Internal Server Error'',
                     res_content_type = Some ''application/json'',
                     res_json = Inr (JObj [(''error'', JStr ''Failed to fetch'')]),
                     res_text = Inr []\<rparr>) ''/login'' GET
     = Inl (new_Error NETWORK_ERROR)
 \<and> NETWORK_ERROR \<noteq> ''Failed to fetch''
 \<and> apiCall (respond \<lparr>res_status = 400, res_statusText = ''Bad Request'',
                     res_content_type = Some ''application/json'',
                     res_json = Inr (JObj [(''error'', JObj [(''toString'', JNum ''1'')]),
                                           (''message'', JStr ''Bad input'')]),
                     res_text = Inr []\<rparr>) ''/login'' GET
     = Inl (new_Error NETWORK_ERROR)"
  by (simp add: apiCall_def apiCall_try_def apiCall_catch_def respond_def res_ok_def
      read_body_def is_json_content_type_def errorMessage_def js_or_def new_Error_def
      NETWORK_ERROR_def)



text \<open>
  Claim C3. When \<^verbatim>\<open>fetch\<close> rejects with a connectivity failure, that is with a TypeError
  (what the Fetch standard prescribes for a network error) or with the message
  \<^verbatim>\<open>Failed to fetch\<close>, \<^verbatim>\<open>apiCall\<close> throws a new error carrying the fixed network error
  text, whatever the text of the underlying error.
\<close>

theorem apiCall_network_error:
  assumes "fetch (build_request ep opts) = Inl e"
    and "err_name e = ''TypeError'' \<or> err_message e = ''Failed to fetch''"
  shows "apiCall fetch ep opts = Inl (new_Error NETWORK_ERROR)
       \<and> err_message (new_Error NETWORK_ERROR) = NETWORK_ERROR"
  using assms by (auto simp: apiCall_def apiCall_try_def apiCall_catch_def new_Error_def)

theorem apiCall_network_error_witness:
  "apiCall (reject \<lparr>err_name = ''TypeError'',
                    err_message = ''NetworkError when attempting to fetch resource.''\<rparr>)
     ''/health'' GET = Inl (new_Error NETWORK_ERROR)"
  using apiCall_network_error [of
      "reject \<lparr>err_name = ''TypeError'',
               err_message = ''NetworkError when attempting to fetch resource.''\<rparr>"
      "''/health''" GET
      "\<lparr>err_name = ''TypeError'', err_message = ''NetworkError when attempting to fetch resource.''\<rparr>"]
  by (simp add: reject_def)

text \<open>
  Claim C10. The test of the catch block applies to every error leaving the \<^verbatim>\<open>try\<close> block,
  whichever statement throws it: the rejection of \<^verbatim>\<open>fetch\<close>, the rejection of
  \<^verbatim>\<open>res.json()\<close> or of \<^verbatim>\<open>res.text()\<close>, the error built for a response outside 200 to
  299, and the error of the string conversion there. An error with the message
  \<^verbatim>\<open>Failed to fetch\<close> or the name \<^verbatim>\<open>TypeError\<close> is replaced by the network error, every
  other error reaches the caller unchanged. So a response outside 200 to 299 whose extracted
  message is \<^verbatim>\<open>Failed to fetch\<close> is reported as the network error, and any other
  extracted message is thrown as it is.
\<close>

theorem apiCall_catch_applies_to_every_error:
  "(fetch (build_request ep opts) = Inl e
    \<longrightarrow> apiCall fetch ep opts =
          Inl (if err_message e = ''Failed to fetch'' \<or> err_name e = ''TypeError''
               then new_Error NETWORK_ERROR else e))
 \<and> (fetch (build_request ep opts) = Inr res
      \<and> (\<exists>ct. res_content_type res = Some ct \<and> sublist ''application/json'' ct)
      \<and> res_json res = Inl e
    \<longrightarrow> apiCall fetch ep opts =
          Inl (if err_message e = ''Failed to fetch'' \<or> err_name e = ''TypeError''
               then new_Error NETWORK_ERROR else e))
 \<and> (fetch (build_request ep opts) = Inr res
      \<and> \<not> (\<exists>ct. res_content_type res = Some ct \<and> sublist ''application/json'' ct)
      \<and> res_text res = Inl e
    \<longrightarrow> apiCall fetch ep opts =
          Inl (if err_message e = ''Failed to fetch'' \<or> err_name e = ''TypeError''
               then new_Error NETWORK_ERROR else e))
 \<and> (fetch (build_request ep opts) = Inr res \<and> \<not> res_ok res \<and> read_body res = Inr data
      \<and> ToString (errorMessage res data) = Inr m
    \<longrightarrow> apiCall fetch ep opts =
          Inl (if m = ''Failed to fetch'' then new_Error NETWORK_ERROR else new_Error m))
 \<and> (fetch (build_request ep opts) = Inr res \<and> \<not> res_ok res \<and> read_body res = Inr data
      \<and> ToString (errorMessage res data) = Inl e
    \<longrightarrow> apiCall fetch ep opts =
          Inl (if err_message e = ''Failed to fetch'' \<or> err_name e = ''TypeError''
               then new_Error NETWORK_ERROR else e))
 \<and> (apiCall_try fetch ep opts = Inl err
      \<and> (err_message err = ''Failed to fetch'' \<or> err_name err = ''TypeError'')
    \<longrightarrow> apiCall fetch ep opts = Inl (new_Error NETWORK_ERROR))
 \<and> (apiCall_try fetch ep opts = Inl err
      \<and> err_message err \<noteq> ''Failed to fetch'' \<and> err_name err \<noteq> ''TypeError''
    \<longrightarrow> apiCall fetch ep opts = Inl err)"
proof -
  have c1: "fetch (build_request ep opts) = Inl e
    \<longrightarrow> apiCall fetch ep opts =
          Inl (if err_message e = ''Failed to fetch'' \<or> err_name e = ''TypeError''
               then new_Error NETWORK_ERROR else e)"
    by (simp add: apiCall_def apiCall_try_def apiCall_catch_def)
  have c2: "fetch (build_request ep opts) = Inr res
      \<and> (\<exists>ct. res_content_type res = Some ct \<and> sublist ''application/json'' ct)
      \<and> res_json res = Inl e
    \<longrightarrow> apiCall fetch ep opts =
          Inl (if err_message e = ''Failed to fetch'' \<or> err_name e = ''TypeError''
               then new_Error NETWORK_ERROR else e)"
    unfolding is_json_content_type_iff [symmetric]
    by (simp add: apiCall_def apiCall_try_def apiCall_catch_def read_body_def)
  have c3: "fetch (build_request ep opts) = Inr res
      \<and> \<not> (\<exists>ct. res_content_type res = Some ct \<and> sublist ''application/json'' ct)
      \<and> res_text res = Inl e
    \<longrightarrow> apiCall fetch ep opts =
          Inl (if err_message e = ''Failed to fetch'' \<or> err_name e = ''TypeError''
               then new_Error NETWORK_ERROR else e)"
    unfolding is_json_content_type_iff [symmetric]
    by (simp add: apiCall_def apiCall_try_def apiCall_catch_def read_body_def)
  have c4: "fetch (build_request ep opts) = Inr res \<and> \<not> res_ok res \<and> read_body res = Inr data
      \<and> ToString (errorMessage res data) = Inr m
    \<longrightarrow> apiCall fetch ep opts =
          Inl (if m = ''Failed to fetch'' then new_Error NETWORK_ERROR else new_Error m)"
    by (simp add: apiCall_def apiCall_try_def apiCall_catch_def new_Error_def)
  have c5: "fetch (build_request ep opts) = Inr res \<and> \<not> res_ok res \<and> read_body res = Inr data
      \<and> ToString (errorMessage res data) = Inl e
    \<longrightarrow> apiCall fetch ep opts =
          Inl (if err_message e = ''Failed to fetch'' \<or> err_name e = ''TypeError''
               then new_Error NETWORK_ERROR else e)"
    by (simp add: apiCall_def apiCall_try_def apiCall_catch_def)
  have c6: "apiCall_try fetch ep opts = Inl err
      \<and> (err_message err = ''Failed to fetch'' \<or> err_name err = ''TypeError'')
    \<longrightarrow> apiCall fetch ep opts = Inl (new_Error NETWORK_ERROR)"
    by (auto simp: apiCall_def apiCall_catch_def)
  have c7: "apiCall_try fetch ep opts = Inl err
      \<and> err_message err \<noteq> ''Failed to fetch'' \<and> err_name err \<noteq> ''TypeError''
    \<longrightarrow> apiCall fetch ep opts = Inl err"
    by (auto simp: apiCall_def apiCall_catch_def)
  from c1 c2 c3 c4 c5 c6 c7 show ?thesis by blast
qed

theorem apiCall_catch_applies_to_every_error_witness:
  "apiCall (respond \<lparr>res_status = 500, res_statusText = ''Internal Server Error'',
                     res_content_type = Some ''application/json'',
                     res_json = Inr (JObj [(''error'', JStr ''Failed to fetch'')]),
                     res_text = Inr []\<rparr>) ''/login'' GET
     = Inl (new_Error NETWORK_ERROR)
 \<and> apiCall (respond \<lparr>res_status = 404, res_statusText = ''Not Found'',
                     res_content_type = Some ''text/plain'',
                     res_json = Inl \<lparr>err_name = ''SyntaxError'', err_message = ''Unexpected token''\<rparr>,
                     res_text = Inr ''No such route''\<rparr>) ''/login'' GET
     = Inl (new_Error ''No such route'')
 \<and> apiCall (respond \<lparr>res_status = 200, res_statusText = ''OK'',
                     res_content_type = Some ''application/json'',
                     res_json = Inl \<lparr>err_name = ''TypeError'', err_message = ''body stream already read''\<rparr>,
                     res_text = Inr []\<rparr>) ''/login'' GET
     = Inl (new_Error NETWORK_ERROR)
 \<and> apiCall (respond \<lparr>res_status = 200, res_statusText = ''OK'',
                     res_content_type = Some ''application/json'',
                     res_json = Inl \<lparr>err_name = ''SyntaxError'', err_message = ''Unexpected token <''\<rparr>,
                     res_text = Inr []\<rparr>) ''/login'' GET
     = Inl \<lparr>err_name = ''SyntaxError'', err_message = ''Unexpected token <''\<rparr>
 \<and> apiCall (respond \<lparr>res_status = 200, res_statusText = ''OK'',
                     res_content_type = Some ''text/plain'',
                     res_json = Inr JNull,
                     res_text = Inl \<lparr>err_name = ''AbortError'', err_message = ''The operation was aborted.''\<rparr>\<rparr>)
       ''/login'' GET
     = Inl \<lparr>err_name = ''AbortError'', err_message = ''The operation was aborted.''\<rparr>
 \<and> apiCall (reject \<lparr>err_name = ''TypeError'', err_message = ''Load failed''\<rparr>) ''/login'' GET
     = Inl (new_Error NETWORK_ERROR)
 \<and> apiCall (reject \<lparr>err_name = ''AbortError'', err_message = ''The operation was aborted.''\<rparr>)
       ''/login'' GET
     = Inl \<lparr>err_name = ''AbortError'', err_message = ''The operation was aborted.''\<rparr>"
proof -
  let ?r1 = "\<lparr>res_status = 500, res_statusText = ''Internal Server Error'',
                     res_content_type = Some ''application/json'',
                     res_json = Inr (JObj [(''error'', JStr ''Failed to fetch'')]),
                     res_text = Inr []\<rparr>"
  let ?r2 = "\<lparr>res_status = 404, res_statusText = ''Not Found'',
                     res_content_type = Some ''text/plain'',
                     res_json = Inl \<lparr>err_name = ''SyntaxError'', err_message = ''Unexpected token''\<rparr>,
                     res_text = Inr ''No such route''\<rparr>"
  let ?r3 = "\<lparr>res_status = 200, res_statusText = ''OK'',
                     res_content_type = Some ''application/json'',
                     res_json = Inl \<lparr>err_name = ''TypeError'', err_message = ''body stream already read''\<rparr>,
                     res_text = Inr []\<rparr>"
  let ?r4 = "\<lparr>res_status = 200, res_statusText = ''OK'',
                     res_content_type = Some ''application/json'',
                     res_json = Inl \<lparr>err_name = ''SyntaxError'', err_message = ''Unexpected token <''\<rparr>,
                     res_text = Inr []\<rparr>"
  let ?r5 = "\<lparr>res_status = 200, res_statusText = ''OK'',
                     res_content_type = Some ''text/plain'',
                     res_json = Inr JNull,
                     res_text = Inl \<lparr>err_name = ''AbortError'', err_message = ''The operation was aborted.''\<rparr>\<rparr>"
  let ?e = "\<lparr>err_name = ''TypeError'', err_message = ''Load failed''\<rparr>"
  let ?a = "\<lparr>err_name = ''AbortError'', err_message = ''The operation was aborted.''\<rparr>"
  have a: "apiCall (respond ?r1) ''/login'' GET = Inl (new_Error NETWORK_ERROR)"
    using apiCall_catch_applies_to_every_error [of "respond ?r1" "''/login''" GET _ ?r1
        "JObj [(''error'', JStr ''Failed to fetch'')]" "''Failed to fetch''"]
    by (simp add: respond_def res_ok_def read_body_def is_json_content_type_def
        errorMessage_def js_or_def)
  have b: "apiCall (respond ?r2) ''/login'' GET = Inl (new_Error ''No such route'')"
    using apiCall_catch_applies_to_every_error [of "respond ?r2" "''/login''" GET _ ?r2
        "JStr ''No such route''" "''No such route''"]
    by (simp add: respond_def res_ok_def read_body_def is_json_content_type_def
        errorMessage_def js_or_def)
  have c: "apiCall (respond ?r3) ''/login'' GET = Inl (new_Error NETWORK_ERROR)"
    using apiCall_catch_applies_to_every_error [of "respond ?r3" "''/login''" GET
        "\<lparr>err_name = ''TypeError'', err_message = ''body stream already read''\<rparr>" ?r3]
      application_json_sublist
    by (simp add: respond_def)
  have d: "apiCall (respond ?r4) ''/login'' GET
      = Inl \<lparr>err_name = ''SyntaxError'', err_message = ''Unexpected token <''\<rparr>"
    using apiCall_catch_applies_to_every_error [of "respond ?r4" "''/login''" GET
        "\<lparr>err_name = ''SyntaxError'', err_message = ''Unexpected token <''\<rparr>" ?r4]
      application_json_sublist
    by (simp add: respond_def)
  have e: "apiCall (respond ?r5) ''/login'' GET = Inl ?a"
    using apiCall_catch_applies_to_every_error [of "respond ?r5" "''/login''" GET ?a ?r5]
      text_plain_not_sublist
    by (simp add: respond_def)
  have f: "apiCall (reject ?e) ''/login'' GET = Inl (new_Error NETWORK_ERROR)"
    using apiCall_catch_applies_to_every_error [of "reject ?e" "''/login''" GET ?e]
    by (simp add: reject_def)
  have g: "apiCall (reject ?a) ''/login'' GET = Inl ?a"
    using apiCall_catch_applies_to_every_error [of "reject ?a" "''/login''" GET ?a]
    by (simp add: reject_def)
  from a b c d e f g show ?thesis by blast
qed

section \<open>Properties of the saved senders\<close>

lemma findIndex_ge: "- 1 \<le> findIndex p xs"
  by (induction xs) (auto simp: Let_def)

lemma findIndex_eq:
  "findIndex p xs = int i \<longleftrightarrow> i < length xs \<and> p (xs ! i) \<and> (\<forall>j<i. \<not> p (xs ! j))"
proof (induction xs arbitrary: i)
  case Nil
  then show ?case by simp
next
  case (Cons x xs)
  show ?case
  proof (cases "p x")
    case True
    then show ?thesis by (cases i) auto
  next
    case False
    note npx = this
    show ?thesis
    proof (cases i)
      case 0
      with npx show ?thesis using findIndex_ge [of p xs] by (auto simp: Let_def)
    next
      case (Suc k)
      have "findIndex p (x # xs) = int (Suc k) \<longleftrightarrow> findIndex p xs = int k"
        using npx by (auto simp: Let_def)
      also have "\<dots> \<longleftrightarrow> k < length xs \<and> p (xs ! k) \<and> (\<forall>j<k. \<not> p (xs ! j))"
        by (rule Cons.IH)
      also have "\<dots> \<longleftrightarrow> Suc k < length (x # xs) \<and> p ((x # xs) ! Suc k)
            \<and> (\<forall>j<Suc k. \<not> p ((x # xs) ! j))"
        using npx by (auto simp: less_Suc_eq_0_disj)
      finally show ?thesis using Suc by simp
    qed
  qed
qed

lemma findIndex_none: "findIndex p xs = - 1 \<longleftrightarrow> (\<forall>x\<in>set xs. \<not> p x)"
proof (induction xs)
  case Nil
  then show ?case by simp
next
  case (Cons x xs)
  then show ?case using findIndex_ge [of p xs] by (auto simp: Let_def)
qed

lemma findIndex_cases:
  obtains (absent) "findIndex p xs = - 1" "\<forall>x\<in>set xs. \<not> p x"
  | (present) i where "findIndex p xs = int i" "i < length xs" "p (xs ! i)" "\<forall>j<i. \<not> p (xs ! j)"
proof (cases "findIndex p xs = - 1")
  case True
  then show ?thesis using absent findIndex_none [of p xs] by blast
next
  case False
  with findIndex_ge [of p xs] have "0 \<le> findIndex p xs" by arith
  then obtain i where i: "findIndex p xs = int i" using nonneg_int_cases by blast
  with findIndex_eq [of p xs i] show ?thesis using present by blast
qed

text \<open>
  Saving a row puts the row's own object into the saved array, and what is typed into a row
  whose object is saved changes the saved sender without a save; the storage keeps the old
  text until the next save.
\<close>

lemma saveSenderProfile_keeps_reference:
  assumes "email (objects st r) \<noteq> []"
  shows "r \<in> set (savedSenders (saveSenderProfile J r st))
       \<and> objects (saveSenderProfile J r st) = objects st"
proof (cases rule: findIndex_cases
    [of "\<lambda>s. email (objects st s) = email (objects st r)" "savedSenders st"])
  case absent
  with assms show ?thesis by (simp add: saveSenderProfile_def Let_def)
next
  case (present i)
  with assms show ?thesis by (simp add: saveSenderProfile_def Let_def set_update_memI)
qed

lemma setSenderEmail_saved_row:
  assumes "idx < length (senders st)" and "senders st ! idx \<in> set (savedSenders st)"
  shows "\<lparr>email = v, password = password (objects st (senders st ! idx))\<rparr>
           \<in> set (saved_senders (setSenderEmail idx v st))
       \<and> localStorage (setSenderEmail idx v st) = localStorage st"
proof -
  let ?r = "senders st ! idx"
  have "objects (setSenderEmail idx v st) ?r = \<lparr>email = v, password = password (objects st ?r)\<rparr>"
    using assms(1) by (simp add: setSenderEmail_def)
  moreover have "savedSenders (setSenderEmail idx v st) = savedSenders st"
    by (simp add: setSenderEmail_def)
  ultimately show ?thesis
    using assms by (auto simp: saved_senders_def setSenderEmail_def image_iff)
qed

text \<open>
  Claim C4 does not hold of the code. In a fresh panel the first row is given the email
  \<^verbatim>\<open>a@x.com\<close> and saved: the collection, in the state and in the storage, is
  \<^verbatim>\<open>[a@x.com]\<close>. The row is retyped to \<^verbatim>\<open>b@x.com\<close>, which changes the saved object
  too, and saved again: \<^verbatim>\<open>findIndex\<close> finds the row's own object at index 0 and the
  collection written is \<^verbatim>\<open>[b@x.com]\<close>, where the claim has \<^verbatim>\<open>b@x.com\<close> appended to
  \<^verbatim>\<open>[a@x.com]\<close>. When the row is first replaced by the copy that Load Saved makes, the
  same typing and saving give \<^verbatim>\<open>[a@x.com, b@x.com]\<close>.
\<close>

theorem saveSenderProfile_shared_row:
  "saved_senders (saveRow JSON 0 (setSenderEmail 0 ''a@x.com'' (ScheduleEmails_init empty_storage)))
     = [\<lparr>email = ''a@x.com'', password = Some []\<rparr>]
 \<and> localStorage (saveRow JSON 0 (setSenderEmail 0 ''a@x.com'' (ScheduleEmails_init empty_storage)))
       ''savedSenders''
     = Some (stringify_senders JSON [\<lparr>email = ''a@x.com'', password = Some []\<rparr>])
 \<and> saved_senders (setSenderEmail 0 ''b@x.com''
       (saveRow JSON 0 (setSenderEmail 0 ''a@x.com'' (ScheduleEmails_init empty_storage))))
     = [\<lparr>email = ''b@x.com'', password = Some []\<rparr>]
 \<and> saved_senders (saveRow JSON 0 (setSenderEmail 0 ''b@x.com''
       (saveRow JSON 0 (setSenderEmail 0 ''a@x.com'' (ScheduleEmails_init empty_storage)))))
     = [\<lparr>email = ''b@x.com'', password = Some []\<rparr>]
 \<and> localStorage (saveRow JSON 0 (setSenderEmail 0 ''b@x.com''
       (saveRow JSON 0 (setSenderEmail 0 ''a@x.com'' (ScheduleEmails_init empty_storage)))))
       ''savedSenders''
     = Some (stringify_senders JSON [\<lparr>email = ''b@x.com'', password = Some []\<rparr>])
 \<and> saved_senders (saveRow JSON 0 (setSenderEmail 0 ''b@x.com'' (loadSavedSender 0 ''a@x.com''
       (saveRow JSON 0 (setSenderEmail 0 ''a@x.com'' (ScheduleEmails_init empty_storage))))))
     = [\<lparr>email = ''a@x.com'', password = Some []\<rparr>, \<lparr>email = ''b@x.com'', password = Some []\<rparr>]"
  by (simp add: saved_senders_def saveRow_def saveSenderProfile_def setSenderEmail_def
      loadSavedSender_def ScheduleEmails_init_def empty_storage_def Let_def)

section \<open>Properties of the saved templates\<close>

text \<open>The decimal text of a number determines the number: two clock values give two ids.\<close>

lemma show_nat_digit: "n < 10 \<Longrightarrow> show_nat n = [''0123456789'' ! n]"
  by (subst show_nat.simps) simp

lemma show_nat_more:
  "\<not> n < 10 \<Longrightarrow> show_nat n = show_nat (n div 10) @ [''0123456789'' ! (n mod 10)]"
  by (subst show_nat.simps) simp

lemma show_nat_not_Nil: "show_nat n \<noteq> []"
proof (cases "n < 10")
  case True
  show ?thesis by (simp only: show_nat_digit [OF True]) simp
next
  case False
  show ?thesis by (simp only: show_nat_more [OF False]) simp
qed

lemma show_nat_length: "length (show_nat n) = 1 \<longleftrightarrow> n < 10"
proof (cases "n < 10")
  case True
  then show ?thesis by (simp only: show_nat_digit [OF True]) simp
next
  case False
  have "length (show_nat (n div 10)) \<noteq> 0"
    using show_nat_not_Nil [of "n div 10"] by simp
  with False show ?thesis by (simp only: show_nat_more [OF False]) simp
qed

lemma digit_code:
  assumes "d < 10"
  shows "of_char (''0123456789'' ! d) = (48 + d :: nat)"
proof -
  from assms have "d = 0 \<or> d = 1 \<or> d = 2 \<or> d = 3 \<or> d = 4 \<or> d = 5 \<or> d = 6
    \<or> d = 7 \<or> d = 8 \<or> d = 9" by arith
  then show ?thesis by (elim disjE) simp_all
qed

lemma digit_inj:
  assumes "d < 10" and "e < 10" and "''0123456789'' ! d = ''0123456789'' ! e"
  shows "d = e"
proof -
  have "(48 + d :: nat) = of_char (''0123456789'' ! d)"
    using assms(1) by (simp only: digit_code)
  also have "\<dots> = of_char (''0123456789'' ! e)"
    by (simp only: assms(3))
  also have "\<dots> = 48 + e"
    using assms(2) by (simp only: digit_code)
  finally show ?thesis by simp
qed

lemma show_nat_inj: "show_nat a = show_nat b \<Longrightarrow> a = b"
proof (induction a arbitrary: b rule: show_nat.induct)
  case (1 n)
  show ?case
  proof (cases "n < 10")
    case True
    have "length (show_nat b) = 1"
      using "1.prems" show_nat_length [of n] True by simp
    then have b: "b < 10" using show_nat_length [of b] by simp
    have "[''0123456789'' ! n] = [''0123456789'' ! b]"
      using "1.prems" by (simp only: show_nat_digit [OF True] show_nat_digit [OF b])
    then have "''0123456789'' ! n = ''0123456789'' ! b" by (simp only: list.inject)
    with True b show ?thesis by (rule digit_inj)
  next
    case False
    have "length (show_nat b) \<noteq> 1"
      using "1.prems" show_nat_length [of n] False by simp
    then have b: "\<not> b < 10" using show_nat_length [of b] by simp
    have "show_nat (n div 10) @ [''0123456789'' ! (n mod 10)]
        = show_nat (b div 10) @ [''0123456789'' ! (b mod 10)]"
      using "1.prems" by (simp only: show_nat_more [OF False] show_nat_more [OF b])
    then have q: "show_nat (n div 10) = show_nat (b div 10)"
      and r: "''0123456789'' ! (n mod 10) = ''0123456789'' ! (b mod 10)"
      by (simp_all only: append1_eq_conv)
    from q have "n div 10 = b div 10" by (rule "1.IH" [OF False])
    moreover have "n mod 10 = b mod 10"
      by (rule digit_inj [OF _ _ r]) simp_all
    ultimately show ?thesis by (metis div_mult_mod_eq)
  qed
qed

lemma saveTemplate_named:
  assumes "draft_name (currentTemplate st) \<noteq> []"
  shows "saveTemplate J now st =
      st\<lparr>templates := templates st @
            [\<lparr>tpl_id = show_nat now, tpl_name = draft_name (currentTemplate st),
              tpl_subject = draft_subject (currentTemplate st),
              tpl_body = draft_body (currentTemplate st)\<rparr>],
         localStorage := (localStorage st)(''emailTemplates'' \<mapsto>
            stringify_templates J (templates st @
              [\<lparr>tpl_id = show_nat now, tpl_name = draft_name (currentTemplate st),
                tpl_subject = draft_subject (currentTemplate st),
                tpl_body = draft_body (currentTemplate st)\<rparr>])),
         selectedTemplateId := show_nat now,
         isTemplateModalOpen := False\<rparr>"
  using assms by (simp add: saveTemplate_def Let_def)

lemma mount_templates:
  assumes "store ''emailTemplates'' = Some text" and "text \<noteq> []"
    and "parse_templates J text = Inr ts"
    and "\<forall>t. store ''savedSenders'' = Some t \<and> t \<noteq> [] \<longrightarrow> (\<exists>ss. parse_senders J t = Inr ss)"
  shows "\<exists>st2. ScheduleEmails_mount J (ScheduleEmails_init store) = Inr st2 \<and> templates st2 = ts"
proof (cases "store ''savedSenders''")
  case None
  with assms(1-3) show ?thesis
    by (simp add: ScheduleEmails_mount_def ScheduleEmails_init_def)
next
  case (Some t)
  show ?thesis
  proof (cases "t = []")
    case True
    with Some assms(1-3) show ?thesis
      by (simp add: ScheduleEmails_mount_def ScheduleEmails_init_def)
  next
    case False
    with Some assms(4) obtain ss where "parse_senders J t = Inr ss" by blast
    with Some False assms(1-3) show ?thesis
      by (simp add: ScheduleEmails_mount_def ScheduleEmails_init_def)
  qed
qed

lemma show_nat_example: "show_nat 1700000000000 = ''1700000000000''"
  by (simp add: show_nat.simps)

lemma JSON_example_text:
  "stringify_templates JSON
     [\<lparr>tpl_id = ''1700000000000'', tpl_name = ''Promo'', tpl_subject = ''Hi'',
       tpl_body = ''Hello''\<rparr>] \<noteq> []"
  by code_simp

lemma JSON_example_reads:
  "parse_templates JSON (stringify_templates JSON
     [\<lparr>tpl_id = ''1700000000000'', tpl_name = ''Promo'', tpl_subject = ''Hi'',
       tpl_body = ''Hello''\<rparr>])
   = Inr [\<lparr>tpl_id = ''1700000000000'', tpl_name = ''Promo'', tpl_subject = ''Hi'',
           tpl_body = ''Hello''\<rparr>]"
  by code_simp

text \<open>
  Claim C5, as amended. Saving a template with a non-empty name appends exactly one entry,
  whose id is the decimal text of \<^verbatim>\<open>Date.now()\<close> and whose name, subject and body are
  those of the draft: the length grows by one and the whole updated list is written under
  the key \<^verbatim>\<open>emailTemplates\<close>. The ids of the collection stay pairwise different when
  they were so before and no stored template has that text as its id, which is the case when
  every stored id is the text of another clock value. A component mounted
  on the storage written loads the same list, provided the platform's \<^verbatim>\<open>JSON.parse\<close>
  reads back what \<^verbatim>\<open>JSON.stringify\<close> wrote, a non-empty text, and the stored senders,
  if any, can be read.
\<close>

theorem saveTemplate_appends:
  assumes "draft_name (currentTemplate st) \<noteq> []"
  shows "templates (saveTemplate J now st) = templates st @
            [\<lparr>tpl_id = show_nat now, tpl_name = draft_name (currentTemplate st),
              tpl_subject = draft_subject (currentTemplate st),
              tpl_body = draft_body (currentTemplate st)\<rparr>]
       \<and> length (templates (saveTemplate J now st)) = length (templates st) + 1
       \<and> localStorage (saveTemplate J now st) ''emailTemplates''
            = Some (stringify_templates J (templates (saveTemplate J now st)))
       \<and> (distinct (map tpl_id (templates st)) \<and> show_nat now \<notin> tpl_id ` set (templates st)
            \<longrightarrow> distinct (map tpl_id (templates (saveTemplate J now st))))
       \<and> ((\<forall>t\<in>set (templates st). \<exists>n. n \<noteq> now \<and> tpl_id t = show_nat n)
            \<longrightarrow> show_nat now \<notin> tpl_id ` set (templates st))
       \<and> (stringify_templates J (templates (saveTemplate J now st)) \<noteq> []
            \<and> parse_templates J (stringify_templates J (templates (saveTemplate J now st)))
                = Inr (templates (saveTemplate J now st))
            \<and> (\<forall>t. localStorage st ''savedSenders'' = Some t \<and> t \<noteq> []
                  \<longrightarrow> (\<exists>ss. parse_senders J t = Inr ss))
            \<longrightarrow> (\<exists>st2. ScheduleEmails_mount J
                         (ScheduleEmails_init (localStorage (saveTemplate J now st))) = Inr st2
                   \<and> templates st2 = templates (saveTemplate J now st)))"
proof -
  note eq = saveTemplate_named [OF assms, of J now]
  have a: "templates (saveTemplate J now st) = templates st @
            [\<lparr>tpl_id = show_nat now, tpl_name = draft_name (currentTemplate st),
              tpl_subject = draft_subject (currentTemplate st),
              tpl_body = draft_body (currentTemplate st)\<rparr>]"
    by (simp add: eq)
  have b: "length (templates (saveTemplate J now st)) = length (templates st) + 1"
    by (simp add: a)
  have c: "localStorage (saveTemplate J now st) ''emailTemplates''
            = Some (stringify_templates J (templates (saveTemplate J now st)))"
    by (simp add: eq)
  have d: "distinct (map tpl_id (templates st)) \<and> show_nat now \<notin> tpl_id ` set (templates st)
            \<longrightarrow> distinct (map tpl_id (templates (saveTemplate J now st)))"
    by (simp add: a)
  have k: "(\<forall>t\<in>set (templates st). \<exists>n. n \<noteq> now \<and> tpl_id t = show_nat n)
            \<longrightarrow> show_nat now \<notin> tpl_id ` set (templates st)"
  proof
    assume other: "\<forall>t\<in>set (templates st). \<exists>n. n \<noteq> now \<and> tpl_id t = show_nat n"
    show "show_nat now \<notin> tpl_id ` set (templates st)"
    proof
      assume "show_nat now \<in> tpl_id ` set (templates st)"
      then obtain t where t: "t \<in> set (templates st)" "tpl_id t = show_nat now" by auto
      with other obtain n where n: "n \<noteq> now" "tpl_id t = show_nat n" by blast
      from t(2) n(2) have "show_nat n = show_nat now" by simp
      then have "n = now" by (rule show_nat_inj)
      with n(1) show False by simp
    qed
  qed
  have s: "localStorage (saveTemplate J now st) ''savedSenders'' = localStorage st ''savedSenders''"
    by (simp add: eq)
  have e: "stringify_templates J (templates (saveTemplate J now st)) \<noteq> []
            \<and> parse_templates J (stringify_templates J (templates (saveTemplate J now st)))
                = Inr (templates (saveTemplate J now st))
            \<and> (\<forall>t. localStorage st ''savedSenders'' = Some t \<and> t \<noteq> []
                  \<longrightarrow> (\<exists>ss. parse_senders J t = Inr ss))
            \<longrightarrow> (\<exists>st2. ScheduleEmails_mount J
                         (ScheduleEmails_init (localStorage (saveTemplate J now st))) = Inr st2
                   \<and> templates st2 = templates (saveTemplate J now st))"
    using mount_templates [of "localStorage (saveTemplate J now st)"
        "stringify_templates J (templates (saveTemplate J now st))" J
        "templates (saveTemplate J now st)"] c
    by (simp only: s) blast
  from a b c d k e show ?thesis by blast
qed

theorem saveTemplate_appends_witness:
  "templates (saveTemplate JSON 1700000000000
      ((ScheduleEmails_init empty_storage)
         \<lparr>currentTemplate := \<lparr>draft_subject = ''Hi'', draft_body = ''Hello'',
                              draft_name = ''Promo''\<rparr>\<rparr>))
     = [\<lparr>tpl_id = ''1700000000000'', tpl_name = ''Promo'', tpl_subject = ''Hi'',
         tpl_body = ''Hello''\<rparr>]
 \<and> (\<exists>st2. ScheduleEmails_mount JSON (ScheduleEmails_init (localStorage
        (saveTemplate JSON 1700000000000
           ((ScheduleEmails_init empty_storage)
              \<lparr>currentTemplate := \<lparr>draft_subject = ''Hi'', draft_body = ''Hello'',
                                   draft_name = ''Promo''\<rparr>\<rparr>)))) = Inr st2
      \<and> templates st2 = [\<lparr>tpl_id = ''1700000000000'', tpl_name = ''Promo'',
                           tpl_subject = ''Hi'', tpl_body = ''Hello''\<rparr>])"
proof -
  let ?st = "(ScheduleEmails_init empty_storage)
         \<lparr>currentTemplate := \<lparr>draft_subject = ''Hi'', draft_body = ''Hello'',
                              draft_name = ''Promo''\<rparr>\<rparr>"
  have n: "draft_name (currentTemplate ?st) \<noteq> []" by simp
  have t: "templates ?st = []" by (simp add: ScheduleEmails_init_def)
  have f: "draft_name (currentTemplate ?st) = ''Promo''"
    "draft_subject (currentTemplate ?st) = ''Hi''" "draft_body (currentTemplate ?st) = ''Hello''"
    by simp_all
  have s: "localStorage ?st ''savedSenders'' = None"
    by (simp add: ScheduleEmails_init_def empty_storage_def)
  note inst = saveTemplate_appends [OF n, of JSON 1700000000000]
  from inst have a: "templates (saveTemplate JSON 1700000000000 ?st)
     = [\<lparr>tpl_id = ''1700000000000'', tpl_name = ''Promo'', tpl_subject = ''Hi'',
         tpl_body = ''Hello''\<rparr>]"
    by (simp only: t f show_nat_example append_Nil)
  from inst have e: "stringify_templates JSON (templates (saveTemplate JSON 1700000000000 ?st)) \<noteq> []
            \<and> parse_templates JSON (stringify_templates JSON (templates (saveTemplate JSON 1700000000000 ?st)))
                = Inr (templates (saveTemplate JSON 1700000000000 ?st))
            \<and> (\<forall>t. localStorage ?st ''savedSenders'' = Some t \<and> t \<noteq> []
                  \<longrightarrow> (\<exists>ss. parse_senders JSON t = Inr ss))
            \<longrightarrow> (\<exists>st2. ScheduleEmails_mount JSON
                         (ScheduleEmails_init (localStorage (saveTemplate JSON 1700000000000 ?st))) = Inr st2
                   \<and> templates st2 = templates (saveTemplate JSON 1700000000000 ?st))"
    by blast
  have "\<forall>t. localStorage ?st ''savedSenders'' = Some t \<and> t \<noteq> []
                  \<longrightarrow> (\<exists>ss. parse_senders JSON t = Inr ss)"
    by (simp only: s) simp
  with e [unfolded a] JSON_example_text JSON_example_reads
  have "\<exists>st2. ScheduleEmails_mount JSON
           (ScheduleEmails_init (localStorage (saveTemplate JSON 1700000000000 ?st))) = Inr st2
         \<and> templates st2 = [\<lparr>tpl_id = ''1700000000000'', tpl_name = ''Promo'',
                           tpl_subject = ''Hi'', tpl_body = ''Hello''\<rparr>]"
    by blast
  with a show ?thesis by blast
qed

text \<open>
  Claim C5 as stated fails in the uniqueness of the id: the id is the clock value and nothing
  compares it with the ids stored. With a template of id \<^verbatim>\<open>1700000000000\<close> stored, a
  save at that clock value gives a collection with the id twice.
\<close>

theorem saveTemplate_id_counterexample:
  "map tpl_id (templates (saveTemplate JSON 1700000000000
      ((ScheduleEmails_init empty_storage)
         \<lparr>templates := [\<lparr>tpl_id = ''1700000000000'', tpl_name = ''Welcome'',
                          tpl_subject = ''Hello'', tpl_body = ''Welcome aboard''\<rparr>],
          currentTemplate := \<lparr>draft_subject = ''Hi'', draft_body = ''Hello'',
                              draft_name = ''Promo''\<rparr>\<rparr>)))
     = [''1700000000000'', ''1700000000000'']"
  by (simp add: saveTemplate_def ScheduleEmails_init_def Let_def show_nat_example)

section \<open>Properties of the Auto Scheduler\<close>

lemma auto_gap_blocked:
  assumes "startDateTime st \<noteq> []" and "gapMinutes st = Some g" and "g < 1 \<or> g > 60"
  shows "AutoScheduler_handleSubmit token st = Finished (st\<lparr>auto_error := Some GAP_ERROR\<rparr>)"
  using assms by (auto simp: AutoScheduler_handleSubmit_def num_lt_def num_gt_def GAP_ERROR_def)

lemma auto_gap_passed_error:
  assumes "startDateTime st \<noteq> []" and "gapMinutes st = Some g" and "1 \<le> g" and "g \<le> 60"
  shows "auto_error (outcome_state (AutoScheduler_handleSubmit token st)) \<noteq> Some GAP_ERROR"
  using assms
  by (simp add: AutoScheduler_handleSubmit_def num_lt_def num_gt_def GAP_ERROR_def Let_def
      outcome_state_def auto_failed_def split: auto_mode.splits option.splits sum.splits)

lemma auto_gap_passed_manual:
  assumes "startDateTime st \<noteq> []" and "gapMinutes st = Some g" and "1 \<le> g" and "g \<le> 60"
    and "auto_mode st = AutoManual"
  shows "invoked (AutoScheduler_handleSubmit token st)"
  using assms
  by (simp add: AutoScheduler_handleSubmit_def num_lt_def num_gt_def Let_def invoked_def)

text \<open>
  Claim C6. With a start timestamp set, a gap below 1 or above 60 (0 and 61 among them) ends
  the submission with the range error, and \<^verbatim>\<open>apiCall\<close> is not reached. A gap from 1 to 60
  (1 and 60 among them) passes the check: the error left behind is never the range error, and
  in manual mode the submission reaches \<^verbatim>\<open>apiCall\<close>.
\<close>

theorem AutoScheduler_gap_validation:
  assumes "startDateTime st \<noteq> []" and "gapMinutes st = Some g"
  shows "(g < 1 \<or> g > 60 \<longrightarrow>
            AutoScheduler_handleSubmit token st = Finished (st\<lparr>auto_error := Some GAP_ERROR\<rparr>)
            \<and> \<not> invoked (AutoScheduler_handleSubmit token st))
       \<and> (1 \<le> g \<and> g \<le> 60 \<longrightarrow>
            auto_error (outcome_state (AutoScheduler_handleSubmit token st)) \<noteq> Some GAP_ERROR
            \<and> (auto_mode st = AutoManual \<longrightarrow> invoked (AutoScheduler_handleSubmit token st)))"
proof -
  have a: "g < 1 \<or> g > 60 \<longrightarrow>
            AutoScheduler_handleSubmit token st = Finished (st\<lparr>auto_error := Some GAP_ERROR\<rparr>)
            \<and> \<not> invoked (AutoScheduler_handleSubmit token st)"
    using auto_gap_blocked [OF assms, of token] by (auto simp: invoked_def)
  have b: "1 \<le> g \<and> g \<le> 60 \<longrightarrow>
            auto_error (outcome_state (AutoScheduler_handleSubmit token st)) \<noteq> Some GAP_ERROR"
    using auto_gap_passed_error [OF assms, of token] by blast
  have c: "1 \<le> g \<and> g \<le> 60 \<longrightarrow> auto_mode st = AutoManual \<longrightarrow>
             invoked (AutoScheduler_handleSubmit token st)"
    using auto_gap_passed_manual [OF assms, of token] by blast
  from a b c show ?thesis by blast
qed

theorem AutoScheduler_gap_validation_witness:
  "AutoScheduler_handleSubmit ''token''
      (AutoScheduler_init\<lparr>startDateTime := ''2025-01-01T10:00'', gapMinutes := Some 0\<rparr>)
     = Finished (AutoScheduler_init\<lparr>startDateTime := ''2025-01-01T10:00'', gapMinutes := Some 0,
                                    auto_error := Some GAP_ERROR\<rparr>)
 \<and> AutoScheduler_handleSubmit ''token''
      (AutoScheduler_init\<lparr>startDateTime := ''2025-01-01T10:00'', gapMinutes := Some 61\<rparr>)
     = Finished (AutoScheduler_init\<lparr>startDateTime := ''2025-01-01T10:00'', gapMinutes := Some 61,
                                    auto_error := Some GAP_ERROR\<rparr>)
 \<and> invoked (AutoScheduler_handleSubmit ''token''
      (AutoScheduler_init\<lparr>startDateTime := ''2025-01-01T10:00'', gapMinutes := Some 1\<rparr>))
 \<and> invoked (AutoScheduler_handleSubmit ''token''
      (AutoScheduler_init\<lparr>startDateTime := ''2025-01-01T10:00'', gapMinutes := Some 60\<rparr>))"
proof -
  let ?st = "\<lambda>g. AutoScheduler_init\<lparr>startDateTime := ''2025-01-01T10:00'', gapMinutes := Some g\<rparr>"
  have a: "AutoScheduler_handleSubmit ''token'' (?st 0) = Finished ((?st 0)\<lparr>auto_error := Some GAP_ERROR\<rparr>)"
    using AutoScheduler_gap_validation [of "?st 0" 0 "''token''"] by simp
  have b: "AutoScheduler_handleSubmit ''token'' (?st 61) = Finished ((?st 61)\<lparr>auto_error := Some GAP_ERROR\<rparr>)"
    using AutoScheduler_gap_validation [of "?st 61" 61 "''token''"] by simp
  have c: "invoked (AutoScheduler_handleSubmit ''token'' (?st 1))"
    using AutoScheduler_gap_validation [of "?st 1" 1 "''token''"]
    by (simp add: AutoScheduler_init_def)
  have d: "invoked (AutoScheduler_handleSubmit ''token'' (?st 60))"
    using AutoScheduler_gap_validation [of "?st 60" 60 "''token''"]
    by (simp add: AutoScheduler_init_def)
  from a b c d show ?thesis by simp
qed

section \<open>Properties of the Domain Manager\<close>

lemma split_not_Nil: "split sep s \<noteq> []"
  by (induction s) (auto split: list.splits)

lemma split_absent: "sep \<notin> set s \<Longrightarrow> split sep s = [s]"
  by (induction s) auto

lemma split_hd: "hd (split sep s) = takeWhile (\<lambda>c. c \<noteq> sep) s"
proof (induction s)
  case Nil
  then show ?case by simp
next
  case (Cons c cs)
  then show ?case using split_not_Nil [of sep cs] by (auto split: list.splits)
qed

lemma split_present:
  "sep \<in> set s \<Longrightarrow>
   split sep s = takeWhile (\<lambda>c. c \<noteq> sep) s # split sep (tl (dropWhile (\<lambda>c. c \<noteq> sep) s))"
proof (induction s)
  case Nil
  then show ?case by simp
next
  case (Cons c cs)
  show ?case
  proof (cases "c = sep")
    case True
    then show ?thesis by simp
  next
    case False
    with Cons.prems have "sep \<in> set cs" by simp
    from Cons.IH [OF this] False show ?thesis by simp
  qed
qed

lemma split_length: "length (split sep s) < 2 \<longleftrightarrow> sep \<notin> set s"
proof (cases "sep \<in> set s")
  case True
  then show ?thesis
    using split_not_Nil [of sep "tl (dropWhile (\<lambda>c. c \<noteq> sep) s)"]
    by (simp add: split_present Suc_lessI)
next
  case False
  then show ?thesis by (simp add: split_absent)
qed

lemma split_second:
  assumes "sep \<in> set s"
  shows "split sep s ! 1 = takeWhile (\<lambda>c. c \<noteq> sep) (tl (dropWhile (\<lambda>c. c \<noteq> sep) s))"
proof -
  let ?r = "tl (dropWhile (\<lambda>c. c \<noteq> sep) s)"
  have "split sep s ! 1 = split sep ?r ! 0"
    by (simp add: split_present [OF assms])
  also have "\<dots> = hd (split sep ?r)"
    using split_not_Nil [of sep ?r] by (simp add: hd_conv_nth)
  finally show ?thesis by (simp add: split_hd)
qed

lemma lower_gmail: "toLowerCase ''gmail.com'' = ''gmail.com''"
  by code_simp

lemma lower_GMAIL: "toLowerCase ''GMail.COM'' = ''gmail.com''"
  by code_simp

lemma lower_custom: "toLowerCase ''customdomain.com'' = ''customdomain.com''"
  by code_simp

text \<open>
  Claim C7, as amended. For a non-empty email that contains \<^verbatim>\<open>@\<close>: when the part after
  the first \<^verbatim>\<open>@\<close>, in lower case, is one of the eight public domains, the request is
  rejected with the public-domain error and \<^verbatim>\<open>apiCall\<close> is not reached; otherwise the
  verification endpoint is called with the email. A non-empty email without \<^verbatim>\<open>@\<close> is
  rejected as an invalid email format, and \<^verbatim>\<open>apiCall\<close> is not reached.
\<close>

theorem handleRequestVerification_blocklist:
  assumes "newEmail st \<noteq> []"
  shows "(CHR ''@'' \<in> set (newEmail st)
            \<and> toLowerCase (domain_part (newEmail st)) \<in> set blockedDomains
          \<longrightarrow> handleRequestVerification token st
                = Finished (st\<lparr>msg := Some (Failure, PUBLIC_DOMAIN_ERROR)\<rparr>))
       \<and> (CHR ''@'' \<in> set (newEmail st)
            \<and> toLowerCase (domain_part (newEmail st)) \<notin> set blockedDomains
          \<longrightarrow> handleRequestVerification token st
                = Invoked \<lparr>endpoint = ''/domains/request-verification'', http_method = ''POST'',
                           bearer = token, payload = \<lparr>sender_email = newEmail st\<rparr>\<rparr>
                    (st\<lparr>dm_loading := True, msg := None, verificationData := None\<rparr>))
       \<and> (CHR ''@'' \<notin> set (newEmail st)
          \<longrightarrow> handleRequestVerification token st
                = Finished (st\<lparr>msg := Some (Failure, ''Invalid email format'')\<rparr>))"
proof -
  have len: "length (split CHR ''@'' (newEmail st)) < 2 \<longleftrightarrow> CHR ''@'' \<notin> set (newEmail st)"
    by (rule split_length)
  have dom: "CHR ''@'' \<in> set (newEmail st) \<Longrightarrow>
      split CHR ''@'' (newEmail st) ! 1 = domain_part (newEmail st)"
    by (simp only: domain_part_def split_second)
  have a: "CHR ''@'' \<in> set (newEmail st)
            \<and> toLowerCase (domain_part (newEmail st)) \<in> set blockedDomains
          \<longrightarrow> handleRequestVerification token st
                = Finished (st\<lparr>msg := Some (Failure, PUBLIC_DOMAIN_ERROR)\<rparr>)"
    using assms len dom by (simp add: handleRequestVerification_def Let_def)
  have b: "CHR ''@'' \<in> set (newEmail st)
            \<and> toLowerCase (domain_part (newEmail st)) \<notin> set blockedDomains
          \<longrightarrow> handleRequestVerification token st
                = Invoked \<lparr>endpoint = ''/domains/request-verification'', http_method = ''POST'',
                           bearer = token, payload = \<lparr>sender_email = newEmail st\<rparr>\<rparr>
                    (st\<lparr>dm_loading := True, msg := None, verificationData := None\<rparr>)"
    using assms len dom by (simp add: handleRequestVerification_def Let_def)
  have c: "CHR ''@'' \<notin> set (newEmail st)
          \<longrightarrow> handleRequestVerification token st
                = Finished (st\<lparr>msg := Some (Failure, ''Invalid email format'')\<rparr>)"
    using assms len by (simp add: handleRequestVerification_def Let_def)
  from a b c show ?thesis by blast
qed

theorem handleRequestVerification_blocklist_witness:
  "handleRequestVerification ''token'' (DomainManager_init\<lparr>newEmail := ''user@gmail.com''\<rparr>)
     = Finished (DomainManager_init\<lparr>newEmail := ''user@gmail.com'',
                                     msg := Some (Failure, PUBLIC_DOMAIN_ERROR)\<rparr>)
 \<and> handleRequestVerification ''token'' (DomainManager_init\<lparr>newEmail := ''User@GMail.COM''\<rparr>)
     = Finished (DomainManager_init\<lparr>newEmail := ''User@GMail.COM'',
                                     msg := Some (Failure, PUBLIC_DOMAIN_ERROR)\<rparr>)
 \<and> handleRequestVerification ''token'' (DomainManager_init\<lparr>newEmail := ''user@customdomain.com''\<rparr>)
     = Invoked \<lparr>endpoint = ''/domains/request-verification'', http_method = ''POST'',
                bearer = ''token'', payload = \<lparr>sender_email = ''user@customdomain.com''\<rparr>\<rparr>
         (DomainManager_init\<lparr>newEmail := ''user@customdomain.com'', dm_loading := True,
                              msg := None, verificationData := None\<rparr>)"
proof -
  have a: "handleRequestVerification ''token'' (DomainManager_init\<lparr>newEmail := ''user@gmail.com''\<rparr>)
     = Finished (DomainManager_init\<lparr>newEmail := ''user@gmail.com'',
                                     msg := Some (Failure, PUBLIC_DOMAIN_ERROR)\<rparr>)"
    using handleRequestVerification_blocklist
      [of "DomainManager_init\<lparr>newEmail := ''user@gmail.com''\<rparr>" "''token''"]
    by (simp add: domain_part_def lower_gmail blockedDomains_def)
  have b: "handleRequestVerification ''token'' (DomainManager_init\<lparr>newEmail := ''User@GMail.COM''\<rparr>)
     = Finished (DomainManager_init\<lparr>newEmail := ''User@GMail.COM'',
                                     msg := Some (Failure, PUBLIC_DOMAIN_ERROR)\<rparr>)"
    using handleRequestVerification_blocklist
      [of "DomainManager_init\<lparr>newEmail := ''User@GMail.COM''\<rparr>" "''token''"]
    by (simp add: domain_part_def lower_GMAIL blockedDomains_def)
  have c: "handleRequestVerification ''token'' (DomainManager_init\<lparr>newEmail := ''user@customdomain.com''\<rparr>)
     = Invoked \<lparr>endpoint = ''/domains/request-verification'', http_method = ''POST'',
                bearer = ''token'', payload = \<lparr>sender_email = ''user@customdomain.com''\<rparr>\<rparr>
         (DomainManager_init\<lparr>newEmail := ''user@customdomain.com'', dm_loading := True,
                              msg := None, verificationData := None\<rparr>)"
    using handleRequestVerification_blocklist
      [of "DomainManager_init\<lparr>newEmail := ''user@customdomain.com''\<rparr>" "''token''"]
    by (simp add: domain_part_def lower_custom blockedDomains_def)
  from a b c show ?thesis by simp
qed

text \<open>
  Claim C7 as stated fails. The email \<^verbatim>\<open>user\<close> is not empty and names no public domain,
  and the verification endpoint is not called: the handler reports an invalid email format.
\<close>

theorem handleRequestVerification_counterexample:
  "handleRequestVerification ''token'' (DomainManager_init\<lparr>newEmail := ''user''\<rparr>)
     = Finished (DomainManager_init\<lparr>newEmail := ''user'',
                                     msg := Some (Failure, ''Invalid email format'')\<rparr>)
 \<and> \<not> invoked (handleRequestVerification ''token'' (DomainManager_init\<lparr>newEmail := ''user''\<rparr>))"
  by (simp add: handleRequestVerification_def Let_def invoked_def)

section \<open>Properties of the Schedule panel\<close>

lemma or_empty_id: "or_empty s = s"
  by (simp add: or_empty_def)

lemma sent_row_eq:
  "\<lparr>receiverMail = receiverMail r, receiverDomain = or_empty (receiverDomain r),
    receiverName = or_empty (receiverName r),
    scheduledDateTime = format_timestamp (scheduledDateTime r)\<rparr> = sent_row r"
  by (simp add: sent_row_def or_empty_id)

lemma complete_row_fun: "(\<lambda>r. receiverMail r \<noteq> [] \<and> scheduledDateTime r \<noteq> []) = complete_row"
  by (rule ext) (simp add: complete_row_def)

lemma schedule_manual:
  assumes "mode st = Manual"
    and "draft_subject (currentTemplate st) \<noteq> []" and "draft_body (currentTemplate st) \<noteq> []"
  shows "ScheduleEmails_handleSubmit token st =
     (if filter complete_row (receivers st) = []
      then Finished (st\<lparr>loading := False, responseMsg := Some (Failure, Some NO_RECEIVER_ERROR)\<rparr>)
      else Invoked
        \<lparr>endpoint = ''/scheduleEmails'', http_method = ''POST'', bearer = token,
         payload = \<lparr>payload_senders =
                      map (\<lambda>s. \<lparr>senderMail = email (objects st s),
                                smtp_password = opt_or_empty (password (objects st s))\<rparr>)
                        (senders st),
                    payload_template = \<lparr>subject = draft_subject (currentTemplate st),
                                         body = html_body (draft_body (currentTemplate st))\<rparr>,
                    payload_receivers = Some (map sent_row (filter complete_row (receivers st))),
                    payload_receivers_csv_base64 = None\<rparr>\<rparr>
        (st\<lparr>loading := True, responseMsg := None\<rparr>))"
  using assms
  by (simp add: ScheduleEmails_handleSubmit_def Let_def complete_row_fun sent_row_eq
      schedule_failed_def NO_RECEIVER_ERROR_def)

lemma format_timestamp_example: "format_timestamp ''2025-01-01T10:00:30'' = ''2025-01-01 10:00''"
  by (simp add: format_timestamp_def substring0_def)

text \<open>
  Claim C8. In manual mode with a non-empty subject and body: when no receiver row has both
  an email and a timestamp, the submission ends with the error asking for a valid receiver
  and \<^verbatim>\<open>apiCall\<close> is not reached; otherwise the scheduling endpoint is called and the
  receivers sent are exactly the rows that have both fields, in their order, each with its
  timestamp in the transmitted form.
\<close>

theorem ScheduleEmails_manual_receivers:
  assumes "mode st = Manual"
    and "draft_subject (currentTemplate st) \<noteq> []" and "draft_body (currentTemplate st) \<noteq> []"
  shows "(\<not> (\<exists>r\<in>set (receivers st). complete_row r) \<longrightarrow>
            ScheduleEmails_handleSubmit token st =
              Finished (st\<lparr>loading := False, responseMsg := Some (Failure, Some NO_RECEIVER_ERROR)\<rparr>)
            \<and> \<not> invoked (ScheduleEmails_handleSubmit token st))
       \<and> ((\<exists>r\<in>set (receivers st). complete_row r) \<longrightarrow>
            (\<exists>req st1. ScheduleEmails_handleSubmit token st = Invoked req st1
               \<and> endpoint req = ''/scheduleEmails''
               \<and> payload_receivers (payload req)
                    = Some (map sent_row (filter complete_row (receivers st)))))"
proof -
  note eq = schedule_manual [OF assms, of token]
  have none: "\<not> (\<exists>r\<in>set (receivers st). complete_row r)
      \<longleftrightarrow> filter complete_row (receivers st) = []"
    by (simp add: filter_empty_conv)
  have a: "\<not> (\<exists>r\<in>set (receivers st). complete_row r) \<longrightarrow>
            ScheduleEmails_handleSubmit token st =
              Finished (st\<lparr>loading := False, responseMsg := Some (Failure, Some NO_RECEIVER_ERROR)\<rparr>)
            \<and> \<not> invoked (ScheduleEmails_handleSubmit token st)"
    unfolding none by (simp add: eq invoked_def)
  have b: "(\<exists>r\<in>set (receivers st). complete_row r) \<longrightarrow>
            (\<exists>req st1. ScheduleEmails_handleSubmit token st = Invoked req st1
               \<and> endpoint req = ''/scheduleEmails''
               \<and> payload_receivers (payload req)
                    = Some (map sent_row (filter complete_row (receivers st))))"
  proof
    assume "\<exists>r\<in>set (receivers st). complete_row r"
    with none have "filter complete_row (receivers st) \<noteq> []" by blast
    then show "\<exists>req st1. ScheduleEmails_handleSubmit token st = Invoked req st1
               \<and> endpoint req = ''/scheduleEmails''
               \<and> payload_receivers (payload req)
                    = Some (map sent_row (filter complete_row (receivers st)))"
      by (simp add: eq)
  qed
  from a b show ?thesis by blast
qed

theorem ScheduleEmails_manual_receivers_witness:
  "ScheduleEmails_handleSubmit ''token''
      ((ScheduleEmails_init empty_storage)
         \<lparr>currentTemplate := \<lparr>draft_subject = ''Hi'', draft_body = ''Hello'', draft_name = []\<rparr>,
          receivers := [\<lparr>receiverMail = ''a@x.com'', receiverDomain = [], receiverName = [],
                          scheduledDateTime = []\<rparr>,
                        \<lparr>receiverMail = [], receiverDomain = [], receiverName = ''B'',
                          scheduledDateTime = ''2025-01-01T10:00''\<rparr>]\<rparr>)
     = Finished ((ScheduleEmails_init empty_storage)
         \<lparr>currentTemplate := \<lparr>draft_subject = ''Hi'', draft_body = ''Hello'', draft_name = []\<rparr>,
          receivers := [\<lparr>receiverMail = ''a@x.com'', receiverDomain = [], receiverName = [],
                          scheduledDateTime = []\<rparr>,
                        \<lparr>receiverMail = [], receiverDomain = [], receiverName = ''B'',
                          scheduledDateTime = ''2025-01-01T10:00''\<rparr>],
          loading := False, responseMsg := Some (Failure, Some NO_RECEIVER_ERROR)\<rparr>)
 \<and> (\<exists>req st1. ScheduleEmails_handleSubmit ''token''
      ((ScheduleEmails_init empty_storage)
         \<lparr>currentTemplate := \<lparr>draft_subject = ''Hi'', draft_body = ''Hello'', draft_name = []\<rparr>,
          receivers := [\<lparr>receiverMail = ''a@x.com'', receiverDomain = [], receiverName = [],
                          scheduledDateTime = []\<rparr>,
                        \<lparr>receiverMail = ''c@x.com'', receiverDomain = ''x.com'', receiverName = ''C'',
                          scheduledDateTime = ''2025-01-01T10:00:30''\<rparr>]\<rparr>) = Invoked req st1
      \<and> payload_receivers (payload req)
           = Some [\<lparr>receiverMail = ''c@x.com'', receiverDomain = ''x.com'', receiverName = ''C'',
                    scheduledDateTime = ''2025-01-01 10:00''\<rparr>])"
proof -
  let ?st1 = "(ScheduleEmails_init empty_storage)
         \<lparr>currentTemplate := \<lparr>draft_subject = ''Hi'', draft_body = ''Hello'', draft_name = []\<rparr>,
          receivers := [\<lparr>receiverMail = ''a@x.com'', receiverDomain = [], receiverName = [],
                          scheduledDateTime = []\<rparr>,
                        \<lparr>receiverMail = [], receiverDomain = [], receiverName = ''B'',
                          scheduledDateTime = ''2025-01-01T10:00''\<rparr>]\<rparr>"
  let ?st2 = "(ScheduleEmails_init empty_storage)
         \<lparr>currentTemplate := \<lparr>draft_subject = ''Hi'', draft_body = ''Hello'', draft_name = []\<rparr>,
          receivers := [\<lparr>receiverMail = ''a@x.com'', receiverDomain = [], receiverName = [],
                          scheduledDateTime = []\<rparr>,
                        \<lparr>receiverMail = ''c@x.com'', receiverDomain = ''x.com'', receiverName = ''C'',
                          scheduledDateTime = ''2025-01-01T10:00:30''\<rparr>]\<rparr>"
  have p1: "mode ?st1 = Manual" "draft_subject (currentTemplate ?st1) \<noteq> []"
    "draft_body (currentTemplate ?st1) \<noteq> []"
    by (simp_all add: ScheduleEmails_init_def)
  have p2: "mode ?st2 = Manual" "draft_subject (currentTemplate ?st2) \<noteq> []"
    "draft_body (currentTemplate ?st2) \<noteq> []"
    by (simp_all add: ScheduleEmails_init_def)
  have h1: "\<not> (\<exists>r\<in>set (receivers ?st1). complete_row r)"
    by (simp add: complete_row_def)
  have h2: "\<exists>r\<in>set (receivers ?st2). complete_row r"
    by (simp add: complete_row_def)
  have f2: "map sent_row (filter complete_row (receivers ?st2))
      = [\<lparr>receiverMail = ''c@x.com'', receiverDomain = ''x.com'', receiverName = ''C'',
          scheduledDateTime = ''2025-01-01 10:00''\<rparr>]"
    by (simp add: complete_row_def sent_row_def format_timestamp_example)
  have a: "ScheduleEmails_handleSubmit ''token'' ?st1
      = Finished (?st1\<lparr>loading := False, responseMsg := Some (Failure, Some NO_RECEIVER_ERROR)\<rparr>)"
    using ScheduleEmails_manual_receivers [OF p1, of "''token''"] h1 by blast
  have "\<exists>req st1. ScheduleEmails_handleSubmit ''token'' ?st2 = Invoked req st1
      \<and> endpoint req = ''/scheduleEmails''
      \<and> payload_receivers (payload req) = Some (map sent_row (filter complete_row (receivers ?st2)))"
    using ScheduleEmails_manual_receivers [OF p2, of "''token''"] h2 by blast
  then have b: "\<exists>req st1. ScheduleEmails_handleSubmit ''token'' ?st2 = Invoked req st1
      \<and> payload_receivers (payload req)
           = Some [\<lparr>receiverMail = ''c@x.com'', receiverDomain = ''x.com'', receiverName = ''C'',
                    scheduledDateTime = ''2025-01-01 10:00''\<rparr>]"
    unfolding f2 by blast
  from a b show ?thesis by simp
qed

section \<open>Properties of the User Stats panel\<close>

text \<open>
  \<^verbatim>\<open>toggleSelectAll\<close> compares lengths. That is the comparison of the two sets of ids as long
  as the selection has no duplicates and holds ids of loaded logs only.
\<close>

lemma length_eq_iff_set_eq:
  assumes "distinct sel" and "distinct ids" and "set sel \<subseteq> set ids"
  shows "length sel = length ids \<longleftrightarrow> set sel = set ids"
proof
  assume "length sel = length ids"
  with assms(1,2) have "card (set sel) = card (set ids)" by (simp add: distinct_card)
  with assms(3) show "set sel = set ids" by (simp add: card_subset_eq)
next
  assume "set sel = set ids"
  then have "card (set sel) = card (set ids)" by simp
  with assms(1,2) show "length sel = length ids" by (simp add: distinct_card)
qed

lemma toggleSelectAll_set_equality:
  assumes "distinct (selectedIds st)" and "distinct (map log_id (logs st))"
    and "set (selectedIds st) \<subseteq> set (map log_id (logs st))"
  shows "selectedIds (toggleSelectAll st) =
      (if set (selectedIds st) = set (map log_id (logs st)) then [] else map log_id (logs st))"
  using length_eq_iff_set_eq [OF assms] by (simp add: toggleSelectAll_def)

text \<open>
  Claim C9 does not hold of the code. The logs \<^verbatim>\<open>a\<close> and \<^verbatim>\<open>b\<close> are loaded, \<^verbatim>\<open>a\<close> is
  ticked and then deleted by \<^verbatim>\<open>handleDeleteSingle\<close>, which reloads the logs and keeps the
  selection. The selection \<^verbatim>\<open>[a]\<close> and the loaded ids \<^verbatim>\<open>[b]\<close> differ as sets and have
  the same length, so \<^verbatim>\<open>toggleSelectAll\<close> clears the selection where the claim has it
  select \<^verbatim>\<open>b\<close>. \<^verbatim>\<open>handleDeleteBulk\<close> on the same state empties the selection before
  it reloads.
\<close>

theorem toggleSelectAll_stale_selection:
  "logs (handleDeleteSingle (Inr JNull) (Inr (Some [log_entry ''b''])) ''a''
          (toggleSelect ''a''
             (fetchLogs (Inr (Some [log_entry ''a'', log_entry ''b''])) UserStats_init)))
     = [log_entry ''b'']
 \<and> selectedIds (handleDeleteSingle (Inr JNull) (Inr (Some [log_entry ''b''])) ''a''
          (toggleSelect ''a''
             (fetchLogs (Inr (Some [log_entry ''a'', log_entry ''b''])) UserStats_init)))
     = [''a'']
 \<and> selectedIds (toggleSelectAll
        (handleDeleteSingle (Inr JNull) (Inr (Some [log_entry ''b''])) ''a''
          (toggleSelect ''a''
             (fetchLogs (Inr (Some [log_entry ''a'', log_entry ''b''])) UserStats_init))))
     = []
 \<and> set [''a''] \<noteq> set (map log_id [log_entry ''b''])
 \<and> selectedIds (handleDeleteBulk (Inr JNull) (Inr (Some [log_entry ''b'']))
          (toggleSelect ''a''
             (fetchLogs (Inr (Some [log_entry ''a'', log_entry ''b''])) UserStats_init)))
     = []"
  by (simp add: handleDeleteSingle_def handleDeleteBulk_def toggleSelect_def toggleSelectAll_def
      fetchLogs_def delete_finally_def UserStats_init_def log_entry_def)

end
